theory Spec2Isabelle
  imports Complex_Main
begin

section \<open>Errors raised by the notebooks' library calls\<close>

text \<open>
  None of the notebooks catches an exception, so every exception a library call raises
  ends the cell. The exceptions are values here; \<open>Inl\<close> carries the exception, \<open>Inr\<close>
  the result of a normal return.
\<close>

datatype error = IOError | IndexError | ValueError | TypeError | AttributeError

section \<open>Convert\_lsat\_pathrow\_latlon.ipynb\<close>

subsection \<open>The shapefile layer and the geometry library\<close>

text \<open>
  \<^verbatim>\<open>point = shapely.geometry.Point(lon, lat)\<close>: a point is built from a longitude and a
  latitude, in this order.
\<close>

datatype point = Point (lon: real) (lat: real)

text \<open>
  A feature of a layer with the attributes of the WRS-2 shapefile: what
  \<^verbatim>\<open>feature.GetGeometryRef()\<close> returns, which is the feature's geometry or, for a feature
  stored without one, Python's \<^verbatim>\<open>None\<close>; and the attributes the notebook reads,
  \<^verbatim>\<open>feature['MODE']\<close>, \<^verbatim>\<open>feature['PATH']\<close> and \<^verbatim>\<open>feature['ROW']\<close>. The geometry type
  \<open>'g\<close> is the library's.
\<close>

record 'g feature =
  geometry :: "'g option"
  MODE :: string
  PATH :: int
  ROW :: int

type_synonym 'g layer = "'g feature list"

text \<open>
  \<^verbatim>\<open>layer.GetFeature(i)\<close>: the features of a shapefile are numbered from 0; for an index
  with no feature the binding returns Python's \<^verbatim>\<open>None\<close>.
\<close>

definition GetFeature :: "'g layer \<Rightarrow> nat \<Rightarrow> 'g feature option" where
  "GetFeature layer i = (if i < length layer then Some (layer ! i) else None)"

text \<open>
  The three library calls of \<^verbatim>\<open>checkPoint\<close>, as parameters: \<^verbatim>\<open>geom.ExportToWkt()\<close> (the
  text form \<open>'w\<close> of a geometry), \<^verbatim>\<open>shapely.wkt.loads\<close> (the shape \<open>'s\<close> of a text) and
  \<^verbatim>\<open>point.within(shape)\<close>, the point-in-polygon test (\<open>within\<close> is a keyword of the
  logic, hence the longer name).
\<close>

record ('g, 'w, 's) geolib =
  ExportToWkt :: "'g \<Rightarrow> 'w"
  wkt_loads :: "'w \<Rightarrow> 's"
  point_within :: "point \<Rightarrow> 's \<Rightarrow> bool"

subsection \<open>checkPoint\<close>

text \<open>
  \<^verbatim>\<open>
  def checkPoint(feature, point, mode):
      geom = feature.GetGeometryRef() #Get geometry from feature
      shape = shapely.wkt.loads(geom.ExportToWkt())
      if point.within(shape) and feature['MODE']==mode:
          return True
      else:
          return False
  \<close>
  The loop hands it \<^verbatim>\<open>layer.GetFeature(i)\<close>, which may be \<^verbatim>\<open>None\<close>; then the first line
  raises (\<^verbatim>\<open>'NoneType' object has no attribute 'GetGeometryRef'\<close>). On a feature
  without geometry the first line gives \<^verbatim>\<open>None\<close> and the second line raises
  (\<^verbatim>\<open>'NoneType' object has no attribute 'ExportToWkt'\<close>).
\<close>

definition checkPoint ::
  "('g, 'w, 's) geolib \<Rightarrow> 'g feature option \<Rightarrow> point \<Rightarrow> string \<Rightarrow> error + bool" where
  "checkPoint lib feature pt mode =
     (case feature of
        None \<Rightarrow> Inl AttributeError
      | Some f \<Rightarrow>
          (case geometry f of
             None \<Rightarrow> Inl AttributeError
           | Some geom \<Rightarrow>
               (let shape = wkt_loads lib (ExportToWkt lib geom)
                in if point_within lib pt shape \<and> MODE f = mode then Inr True else Inr False)))"

subsection \<open>The lookup loop\<close>

text \<open>
  \<^verbatim>\<open>
  i=0
  while not checkPoint(layer.GetFeature(i), point, mode):
      i += 1
  \<close>
  The loop as a function of the index it has reached; it returns the index at which it
  stops, or the exception that \<^verbatim>\<open>checkPoint\<close> raised.
\<close>

function scan ::
  "('g, 'w, 's) geolib \<Rightarrow> 'g layer \<Rightarrow> point \<Rightarrow> string \<Rightarrow> nat \<Rightarrow> error + nat" where
  "scan lib layer pt mode i =
     (case checkPoint lib (GetFeature layer i) pt mode of
        Inl e \<Rightarrow> Inl e
      | Inr b \<Rightarrow> if \<not> b then scan lib layer pt mode (i + 1) else Inr i)"
  by pat_completeness auto
termination
proof (relation "measure (\<lambda>(lib, layer, pt, mode, i). length layer - i)")
  show "wf (measure (\<lambda>(lib, layer, pt, mode, i). length layer - i))"
    by simp
next
  fix lib :: "('g, 'w, 's) geolib" and layer :: "'g layer" and pt mode i b
  assume "checkPoint lib (GetFeature layer i) pt mode = Inr b"
  then have "i < length layer"
    by (auto simp: checkPoint_def GetFeature_def split: if_splits option.splits)
  then show "((lib, layer, pt, mode, i + 1), (lib, layer, pt, mode, i))
      \<in> measure (\<lambda>(lib, layer, pt, mode, i). length layer - i)"
    by simp
qed

declare scan.simps [simp del]

text \<open>
  The same loop with a bound on the number of times \<^verbatim>\<open>checkPoint\<close> is called: \<open>None\<close>
  when the bound is used up before the loop has ended.
\<close>

fun scan_fuel ::
  "nat \<Rightarrow> ('g, 'w, 's) geolib \<Rightarrow> 'g layer \<Rightarrow> point \<Rightarrow> string \<Rightarrow> nat \<Rightarrow> (error + nat) option" where
  "scan_fuel 0 lib layer pt mode i = None"
| "scan_fuel (Suc n) lib layer pt mode i =
     (case checkPoint lib (GetFeature layer i) pt mode of
        Inl e \<Rightarrow> Some (Inl e)
      | Inr b \<Rightarrow> if \<not> b then scan_fuel n lib layer pt mode (i + 1) else Some (Inr i))"

text \<open>
  \<^verbatim>\<open>
  feature = layer.GetFeature(i)
  path = feature['PATH']
  row = feature['ROW']
  print('Path: ', path, 'Row: ', row)
  \<close>
  The cell's result is the pair printed. Subscripting \<^verbatim>\<open>None\<close> would raise a
  \<^verbatim>\<open>TypeError\<close>.
\<close>

definition pathrow_lookup ::
  "('g, 'w, 's) geolib \<Rightarrow> 'g layer \<Rightarrow> point \<Rightarrow> string \<Rightarrow> error + (int \<times> int)" where
  "pathrow_lookup lib layer pt mode =
     (case scan lib layer pt mode 0 of
        Inl e \<Rightarrow> Inl e
      | Inr i \<Rightarrow>
          (case GetFeature layer i of
             None \<Rightarrow> Inl TypeError
           | Some feature \<Rightarrow> Inr (PATH feature, ROW feature)))"

text \<open>
  A stand-in for the geometry library on which the definitions can be run: rectangles
  with their edges parallel to the axes, whose text form and shape are the rectangle
  itself, and a point is within a rectangle when it is strictly inside.
\<close>

record box =
  west :: real
  south :: real
  east :: real
  north :: real

definition box_within :: "point \<Rightarrow> box \<Rightarrow> bool" where
  "box_within pt b \<longleftrightarrow>
     west b < lon pt \<and> lon pt < east b \<and> south b < lat pt \<and> lat pt < north b"

definition boxlib :: "(box, box, box) geolib" where
  "boxlib = \<lparr>ExportToWkt = (\<lambda>g. g), wkt_loads = (\<lambda>w. w), point_within = box_within\<rparr>"

text \<open>The notebook's inputs: Boulder, Colorado, and descending mode.\<close>

definition boulder :: point where
  "boulder = Point (-105.2705) 40.0150"

definition colorado_layer :: "box layer" where
  "colorado_layer =
     [\<lparr>geometry = Some \<lparr>west = -107, south = 39, east = -104, north = 41\<rparr>,
        MODE = ''A'', PATH = 137, ROW = 212\<rparr>,
      \<lparr>geometry = Some \<lparr>west = 2, south = 48, east = 3, north = 49\<rparr>,
        MODE = ''D'', PATH = 199, ROW = 26\<rparr>,
      \<lparr>geometry = Some \<lparr>west = -106, south = 39, east = -104, north = 41\<rparr>,
        MODE = ''D'', PATH = 34, ROW = 32\<rparr>,
      \<lparr>geometry = Some \<lparr>west = -106, south = 40, east = -105, north = 42\<rparr>,
        MODE = ''D'', PATH = 34, ROW = 31\<rparr>]"

text \<open>
  A layer whose first feature was stored without a geometry; its second feature is the
  one of path 34, row 32.
\<close>

definition nogeom_layer :: "box layer" where
  "nogeom_layer =
     [\<lparr>geometry = None, MODE = ''D'', PATH = 33, ROW = 32\<rparr>,
      \<lparr>geometry = Some \<lparr>west = -106, south = 39, east = -104, north = 41\<rparr>,
        MODE = ''D'', PATH = 34, ROW = 32\<rparr>]"

text \<open>
  The two directions a conversion can have, as relations between the two numbers a run
  is given and the two numbers it prints. In \<open>pathrow_to_latlon\<close>, which follows the
  words ``for an input path/row identifier the program produces the corresponding
  latitude/longitude coordinates'', the input is the path and row of a feature of the
  layer and the output is a point within this feature. In \<open>latlon_to_pathrow\<close> the input
  is a point and the output is the path and row of a feature of the given mode that the
  point is within.
\<close>

definition pathrow_to_latlon ::
  "('g, 'w, 's) geolib \<Rightarrow> 'g layer \<Rightarrow> real \<times> real \<Rightarrow> real \<times> real \<Rightarrow> bool" where
  "pathrow_to_latlon lib layer inp out \<longleftrightarrow>
     (\<exists>f\<in>set layer. \<exists>geom. geometry f = Some geom \<and>
        real_of_int (PATH f) = fst inp \<and> real_of_int (ROW f) = snd inp \<and>
        point_within lib (Point (fst out) (snd out)) (wkt_loads lib (ExportToWkt lib geom)))"

definition latlon_to_pathrow ::
  "('g, 'w, 's) geolib \<Rightarrow> 'g layer \<Rightarrow> string \<Rightarrow> real \<times> real \<Rightarrow> real \<times> real \<Rightarrow> bool" where
  "latlon_to_pathrow lib layer mode inp out \<longleftrightarrow>
     (\<exists>f\<in>set layer. \<exists>geom. geometry f = Some geom \<and>
        real_of_int (PATH f) = fst out \<and> real_of_int (ROW f) = snd out \<and>
        MODE f = mode \<and>
        point_within lib (Point (fst inp) (snd inp)) (wkt_loads lib (ExportToWkt lib geom)))"

section \<open>Ipyparallel\_tutorial.ipynb\<close>

text \<open>
  \<^verbatim>\<open>squares = c.map_sync(lambda x: x**2, range(1,28))\<close>

  Python's \<^verbatim>\<open>range(a, b)\<close> is the integers from \<open>a\<close> up to, and without, \<open>b\<close>. The
  cluster's \<^verbatim>\<open>map_sync\<close> is taken as the sequential map whose result it gathers, in the
  order of the sequence.
\<close>

definition py_range :: "int \<Rightarrow> int \<Rightarrow> int list" where
  "py_range a b = [a..b - 1]"

definition map_sync :: "('a \<Rightarrow> 'b) \<Rightarrow> 'a list \<Rightarrow> 'b list" where
  "map_sync f xs = map f xs"

definition squares :: "int list" where
  "squares = map_sync (\<lambda>x. x ^ 2) (py_range 1 28)"

section \<open>smap\_to\_raster.ipynb\<close>

subsection \<open>Numbers\<close>

text \<open>
  The numbers of this notebook are numpy scalars of the dtype of the arrays they come
  from, Python floats and the Python int 0. Their arithmetic rounds, has a NaN, and
  differs from one dtype to the other, so it is not fixed here: \<open>'a\<close> is the type of all
  these numbers, and the operations that \<^verbatim>\<open>smap2raster\<close> applies to them are parameters,
  the fields of the record below. What is proved holds for every arithmetic.
  \<^item> \<open>np_min\<close>, \<open>np_max\<close>: \<^verbatim>\<open>a.min()\<close> and \<^verbatim>\<open>a.max()\<close> of an array that has elements;
  \<^item> \<open>np_sub\<close>, \<open>np_div\<close>, \<open>np_neg\<close>: \<^verbatim>\<open>x - y\<close>, \<^verbatim>\<open>x / y\<close> and \<^verbatim>\<open>-x\<close>;
  \<^item> \<open>py_float\<close>: \<^verbatim>\<open>float(n)\<close> of a dimension \<open>n\<close>; \<open>py_zero\<close>: the int \<^verbatim>\<open>0\<close>;
  \<^item> \<open>to_double\<close>: the C double that GDAL keeps of a number of a geotransform;
  \<^item> \<open>to_float32\<close>: the pixel that a Float32 band keeps of a number.
\<close>

record 'a numpy =
  np_min :: "'a list \<Rightarrow> 'a"
  np_max :: "'a list \<Rightarrow> 'a"
  np_sub :: "'a \<Rightarrow> 'a \<Rightarrow> 'a"
  np_div :: "'a \<Rightarrow> 'a \<Rightarrow> 'a"
  np_neg :: "'a \<Rightarrow> 'a"
  py_float :: "nat \<Rightarrow> 'a"
  py_zero :: 'a
  to_double :: "'a \<Rightarrow> 'a"
  to_float32 :: "'a \<Rightarrow> 'a"

subsection \<open>Arrays, the HDF5 file, the raster and the file system\<close>

text \<open>A numpy array: its shape and its elements in row-major order.\<close>

record 'a ndarray =
  shape :: "nat list"
  elems :: "'a list"

text \<open>
  An open HDF5 file is what \<^verbatim>\<open>h5File.get(name)\<close> returns for each name: the dataset, or
  \<^verbatim>\<open>None\<close> when there is none of that name.
\<close>

type_synonym 'a h5file = "string \<Rightarrow> 'a ndarray option"

datatype gdal_type = GDT_Byte | GDT_Int32 | GDT_Float32 | GDT_Float64

datatype srs = EPSG nat

type_synonym 'a geotransform = "'a \<times> 'a \<times> 'a \<times> 'a \<times> 'a \<times> 'a"

text \<open>
  A raster dataset of the GTiff driver: its size, its number of bands, the pixel type
  of its bands, its geotransform and its projection (none until one is set) and the
  pixels of band 1 (none until they are written).
\<close>

record 'a raster =
  RasterXSize :: int
  RasterYSize :: int
  RasterCount :: int
  DataType :: gdal_type
  GeoTransform :: "'a geotransform option"
  Projection :: "srs option"
  Band1 :: "'a list option"

datatype 'a file_content = H5 "'a h5file" | GTiff "'a raster"

datatype open_mode = ReadOnly | ReadWrite

text \<open>
  The file system. A path is a string, and the operating system resolves it to the
  file it names: \<open>resolve\<close> gives the place of that file, the same for two paths that
  name one file (\<^verbatim>\<open>x\<close> and \<^verbatim>\<open>./x\<close>, a link and its target). Files are kept by place, one
  name space for the input and for the output. \<open>creatable\<close> tells at which places a
  file can be created (the directory is there and can be written). \<open>opened\<close> is the
  HDF5 handles that are open, each with the place of its file and its mode.
\<close>

record 'a filesystem =
  resolve :: "string \<Rightarrow> string"
  creatable :: "string \<Rightarrow> bool"
  files :: "string \<Rightarrow> 'a file_content option"
  opened :: "(string \<times> open_mode) list"

subsection \<open>The library calls of smap2raster\<close>

text \<open>
  \<^verbatim>\<open>np_data.shape[k]\<close>: an \<^verbatim>\<open>IndexError\<close> when the array has no such dimension;
  \<^verbatim>\<open>np.array(None)\<close>, the array of a dataset that does not exist, has the empty shape.
\<close>

definition shape_at :: "'a ndarray option \<Rightarrow> nat \<Rightarrow> error + nat" where
  "shape_at a k =
     (case a of
        None \<Rightarrow> Inl IndexError
      | Some arr \<Rightarrow> if k < length (shape arr) then Inr (shape arr ! k) else Inl IndexError)"

text \<open>
  \<^verbatim>\<open>a.min()\<close> and \<^verbatim>\<open>a.max()\<close> over all elements: a \<^verbatim>\<open>ValueError\<close> on an array with no
  element. On \<^verbatim>\<open>np.array(None)\<close> they raise nothing and return \<^verbatim>\<open>None\<close>.
\<close>

definition amin :: "'a numpy \<Rightarrow> 'a ndarray option \<Rightarrow> error + 'a option" where
  "amin np a =
     (case a of
        None \<Rightarrow> Inr None
      | Some arr \<Rightarrow>
          if elems arr = [] then Inl ValueError else Inr (Some (np_min np (elems arr))))"

definition amax :: "'a numpy \<Rightarrow> 'a ndarray option \<Rightarrow> error + 'a option" where
  "amax np a =
     (case a of
        None \<Rightarrow> Inr None
      | Some arr \<Rightarrow>
          if elems arr = [] then Inl ValueError else Inr (Some (np_max np (elems arr))))"

text \<open>
  \<^verbatim>\<open>driver.Create(name, xsize, ysize, bands, type)\<close> of the GTiff driver: it writes a new
  file at the place \<open>name\<close> resolves to, replacing the file that is there, with no
  geotransform and no projection set and no pixel written, and returns the dataset,
  named here by its place. For a size or a band count below 1, or where no file can be
  created, it creates nothing and returns \<^verbatim>\<open>None\<close>.
\<close>

definition Create ::
  "string \<Rightarrow> int \<Rightarrow> int \<Rightarrow> int \<Rightarrow> gdal_type \<Rightarrow> 'a filesystem \<Rightarrow>
     string option \<times> 'a filesystem" where
  "Create name xsize ysize bands dtype st =
     (let place = resolve st name
      in if xsize < 1 \<or> ysize < 1 \<or> bands < 1 \<or> \<not> creatable st place then (None, st)
         else (Some place,
               st\<lparr>files := (files st)(place \<mapsto> GTiff
                 \<lparr>RasterXSize = xsize, RasterYSize = ysize, RasterCount = bands,
                  DataType = dtype, GeoTransform = None, Projection = None,
                  Band1 = None\<rparr>)\<rparr>))"

text \<open>\<^verbatim>\<open>raster.SetGeoTransform(geotransform)\<close> keeps the six numbers as C doubles.\<close>

definition doubles :: "'a numpy \<Rightarrow> 'a geotransform \<Rightarrow> 'a geotransform" where
  "doubles np gt =
     (case gt of (a, b, c, d, e, f) \<Rightarrow>
        (to_double np a, to_double np b, to_double np c, to_double np d, to_double np e,
         to_double np f))"

definition SetGeoTransform ::
  "'a numpy \<Rightarrow> string \<Rightarrow> 'a geotransform \<Rightarrow> 'a filesystem \<Rightarrow> 'a filesystem" where
  "SetGeoTransform np rst gt st =
     (case files st rst of
        Some (GTiff r) \<Rightarrow>
          st\<lparr>files := (files st)(rst \<mapsto> GTiff (r\<lparr>GeoTransform := Some (doubles np gt)\<rparr>))\<rparr>
      | _ \<Rightarrow> st)"

definition ImportFromEPSG :: "nat \<Rightarrow> srs" where
  "ImportFromEPSG code = EPSG code"

definition SetProjection :: "string \<Rightarrow> srs \<Rightarrow> 'a filesystem \<Rightarrow> 'a filesystem" where
  "SetProjection rst s st =
     (case files st rst of
        Some (GTiff r) \<Rightarrow> st\<lparr>files := (files st)(rst \<mapsto> GTiff (r\<lparr>Projection := Some s\<rparr>))\<rparr>
      | _ \<Rightarrow> st)"

text \<open>
  \<^verbatim>\<open>raster.GetRasterBand(1).WriteArray(np_data)\<close>: a \<^verbatim>\<open>ValueError\<close> unless the array has
  two dimensions and fits the band; the band keeps each element as a Float32 pixel.
\<close>

definition WriteArray ::
  "'a numpy \<Rightarrow> string \<Rightarrow> 'a ndarray option \<Rightarrow> 'a filesystem \<Rightarrow>
     (error + unit) \<times> 'a filesystem" where
  "WriteArray np rst a st =
     (case files st rst of
        Some (GTiff r) \<Rightarrow>
          (case a of
             None \<Rightarrow> (Inl ValueError, st)
           | Some arr \<Rightarrow>
               if length (shape arr) \<noteq> 2 then (Inl ValueError, st)
               else if RasterXSize r < int (shape arr ! 1) \<or> RasterYSize r < int (shape arr ! 0)
               then (Inl ValueError, st)
               else (Inr (),
                     st\<lparr>files := (files st)(rst \<mapsto> GTiff
                       (r\<lparr>Band1 := Some (map (to_float32 np) (elems arr))\<rparr>))\<rparr>))
      | _ \<Rightarrow> (Inl AttributeError, st))"

definition h5_close :: "string \<Rightarrow> 'a filesystem \<Rightarrow> 'a filesystem" where
  "h5_close name st = st\<lparr>opened := remove1 (resolve st name, ReadOnly) (opened st)\<rparr>"

subsection \<open>smap2raster\<close>

text \<open>
  \<^verbatim>\<open>
  def smap2raster(inputFile, group, dataset):
      h5File = h5py.File(inputFile, 'r')
      data = h5File.get(group + '/' + dataset)
      lat = h5File.get('cell_lat')
      lon = h5File.get('cell_lon')
      np_data = np.array(data)
      np_lat = np.array(lat)
      np_lon = np.array(lon)
      num_cols = float(np_data.shape[1])
      num_rows = float(np_data.shape[0])
      xmin = np_lon.min()
      xmax = np_lon.max()
      ymin = np_lat.min()
      ymax = np_lat.max()
      xres = (xmax - xmin)/num_cols
      yres = (ymax - ymin)/num_rows
      geotransform = (xmin, xres, 0, ymax, 0, -yres)
      driver = gdal.GetDriverByName('GTiff')
      raster = driver.Create(dataset+'Raster.tif', int(num_cols), int(num_rows), 1, gdal.GDT_Float32)
      raster.SetGeoTransform(geotransform)
      srs = osr.SpatialReference()
      srs.ImportFromEPSG(4326)
      raster.SetProjection( srs.ExportToWkt() )
      raster.GetRasterBand(1).WriteArray(np_data)
      h5File.close()
  \<close>
  The function takes the file system and returns it as the call leaves it, also when an
  exception ends the call: what was written stays written, and the handle stays open.
  \<^item> \<^verbatim>\<open>h5py.File(inputFile, 'r')\<close> raises an \<^verbatim>\<open>IOError\<close> unless the path names an HDF5
    file.
  \<^item> When \<^verbatim>\<open>cell_lon\<close> or \<^verbatim>\<open>cell_lat\<close> is not in the file, its extent is \<^verbatim>\<open>None\<close> and
    the subtraction in \<^verbatim>\<open>xres\<close> or \<^verbatim>\<open>yres\<close> raises a \<^verbatim>\<open>TypeError\<close>, after the four
    extents have been taken. Nothing is written between these two lines, so the one
    test on the four extents below stands for both.
  \<^item> \<^verbatim>\<open>int(num_cols)\<close> is the dimension itself: \<^verbatim>\<open>int(float(n))\<close> is \<open>n\<close> for every \<open>n\<close>
    below \<open>2^53\<close>, and an array that is in memory has no larger dimension unless it
    has no element, in which case \<^verbatim>\<open>Create\<close> returns \<^verbatim>\<open>None\<close> for either size.
  \<^item> A method called on the \<^verbatim>\<open>None\<close> that \<^verbatim>\<open>Create\<close> returned raises an
    \<^verbatim>\<open>AttributeError\<close>.
\<close>

definition smap2raster ::
  "'a numpy \<Rightarrow> string \<Rightarrow> string \<Rightarrow> string \<Rightarrow> 'a filesystem \<Rightarrow>
     (error + unit) \<times> 'a filesystem" where
  "smap2raster np inputFile grp dataset st =
     (case files st (resolve st inputFile) of
        None \<Rightarrow> (Inl IOError, st)
      | Some (GTiff _) \<Rightarrow> (Inl IOError, st)
      | Some (H5 h5File) \<Rightarrow>
          (let st1 = st\<lparr>opened := (resolve st inputFile, ReadOnly) # opened st\<rparr>;
               np_data = h5File (grp @ ''/'' @ dataset);
               np_lat = h5File ''cell_lat'';
               np_lon = h5File ''cell_lon''
           in case shape_at np_data 1 of Inl e \<Rightarrow> (Inl e, st1) | Inr cols \<Rightarrow>
             (case shape_at np_data 0 of Inl e \<Rightarrow> (Inl e, st1) | Inr rows \<Rightarrow>
             (case amin np np_lon of Inl e \<Rightarrow> (Inl e, st1) | Inr xmin' \<Rightarrow>
             (case amax np np_lon of Inl e \<Rightarrow> (Inl e, st1) | Inr xmax' \<Rightarrow>
             (case amin np np_lat of Inl e \<Rightarrow> (Inl e, st1) | Inr ymin' \<Rightarrow>
             (case amax np np_lat of Inl e \<Rightarrow> (Inl e, st1) | Inr ymax' \<Rightarrow>
             (case (xmin', xmax', ymin', ymax') of
                (Some xmin, Some xmax, Some ymin, Some ymax) \<Rightarrow>
                  (let num_cols = py_float np cols;
                       num_rows = py_float np rows;
                       xres = np_div np (np_sub np xmax xmin) num_cols;
                       yres = np_div np (np_sub np ymax ymin) num_rows;
                       geotransform = (xmin, xres, py_zero np, ymax, py_zero np, np_neg np yres)
                   in case Create (dataset @ ''Raster.tif'') (int cols) (int rows) 1 GDT_Float32
                             st1 of
                        (None, st2) \<Rightarrow> (Inl AttributeError, st2)
                      | (Some rst, st2) \<Rightarrow>
                          (let st3 = SetGeoTransform np rst geotransform st2;
                               srs = ImportFromEPSG 4326;
                               st4 = SetProjection rst srs st3
                           in case WriteArray np rst np_data st4 of
                                (Inl e, st5) \<Rightarrow> (Inl e, st5)
                              | (Inr _, st5) \<Rightarrow> (Inr (), h5_close inputFile st5)))
              | _ \<Rightarrow> (Inl TypeError, st1)))))))))"

text \<open>
  What a call needs to return normally: the path names an HDF5 file in which the
  dataset of the group is an array of two dimensions with at least one row and one
  column, and \<^verbatim>\<open>cell_lat\<close> and \<^verbatim>\<open>cell_lon\<close> are arrays with at least one element; and a
  file can be created where the name of the raster resolves to.
\<close>

definition smap_input_ok :: "string \<Rightarrow> string \<Rightarrow> string \<Rightarrow> 'a filesystem \<Rightarrow> bool" where
  "smap_input_ok inputFile grp dataset st =
     (case files st (resolve st inputFile) of
        Some (H5 h) \<Rightarrow>
          (case h (grp @ ''/'' @ dataset) of
             Some data \<Rightarrow> length (shape data) = 2 \<and> 0 < shape data ! 0 \<and> 0 < shape data ! 1
           | None \<Rightarrow> False) \<and>
          (case h ''cell_lat'' of Some a \<Rightarrow> elems a \<noteq> [] | None \<Rightarrow> False) \<and>
          (case h ''cell_lon'' of Some a \<Rightarrow> elems a \<noteq> [] | None \<Rightarrow> False) \<and>
          creatable st (resolve st (dataset @ ''Raster.tif''))
      | _ \<Rightarrow> False)"

subsection \<open>The loop over the dataset names\<close>

text \<open>
  \<^verbatim>\<open>
  file_path = 'SMAP_L4_SM_gph_20150331T013000_Vb1010_001.h5'
  which_group = 'Geophysical_Data'
  datasets = ['sm_surface_wetness', 'soil_temp_layer2']
  for i in range(0, len(datasets)):
      smap2raster(file_path, which_group, datasets[i])
  \<close>
  The loop is a function of the list of names and of the index reached. Beside the file
  system it carries the list of the calls made so far, each by its three arguments: the
  list is not in the notebook, it records what the loop does.
\<close>

definition file_path :: string where
  "file_path = ''SMAP_L4_SM_gph_20150331T013000_Vb1010_001.h5''"

definition which_group :: string where
  "which_group = ''Geophysical_Data''"





subsection \<open>An arithmetic that rounds, and small files\<close>

text \<open>
  The arithmetic of arrays of dtype \<^verbatim>\<open>float32\<close>, as far as the numbers are in the normal
  range of the format: every number is a real, and a difference or a quotient is
  rounded to the nearest number with a significand of 24 bits, ties to the even one.
  Overflow, subnormal numbers, infinities and NaN are left out of it.
\<close>

definition round_half_even :: "real \<Rightarrow> int" where
  "round_half_even x =
     (let n = \<lfloor>x\<rfloor>; d = x - of_int n
      in if d < 1 / 2 then n else if 1 / 2 < d then n + 1 else if even n then n else n + 1)"

definition binary32 :: "real \<Rightarrow> real" where
  "binary32 x =
     (if x = 0 then 0
      else (let e = \<lfloor>log 2 \<bar>x\<bar>\<rfloor>
            in of_int (round_half_even (x * 2 powr (23 - of_int e))) * 2 powr (of_int e - 23)))"

definition float32_np :: "real numpy" where
  "float32_np =
     \<lparr>np_min = (\<lambda>xs. Min (set xs)), np_max = (\<lambda>xs. Max (set xs)),
      np_sub = (\<lambda>x y. binary32 (x - y)), np_div = (\<lambda>x y. binary32 (x / y)),
      np_neg = (\<lambda>x. - x), py_float = real, py_zero = 0,
      to_double = (\<lambda>x. x), to_float32 = binary32\<rparr>"

text \<open>
  A file with the two datasets of the notebook on a grid of 2 rows and 3 columns, the
  latitudes and longitudes of its cells at the top level, and, inside the group, arrays
  of the same two names with other values.
\<close>

definition smap_h5 :: "real h5file" where
  "smap_h5 =
     [''Geophysical_Data/sm_surface_wetness'' \<mapsto>
        \<lparr>shape = [2, 3], elems = [0.25, 0.5, 0.75, 0.125, 0.375, 0.625]\<rparr>,
      ''Geophysical_Data/soil_temp_layer2'' \<mapsto>
        \<lparr>shape = [2, 3], elems = [271, 272, 273, 281, 282, 283]\<rparr>,
      ''cell_lat'' \<mapsto> \<lparr>shape = [2, 3], elems = [60, 60, 60, 20, 20, 20]\<rparr>,
      ''cell_lon'' \<mapsto> \<lparr>shape = [2, 3], elems = [-120, -90, -60, -120, -90, -60]\<rparr>,
      ''Geophysical_Data/cell_lat'' \<mapsto> \<lparr>shape = [2], elems = [1, 2]\<rparr>,
      ''Geophysical_Data/cell_lon'' \<mapsto> \<lparr>shape = [2], elems = [3, 4]\<rparr>]"

definition smap_fs :: "real filesystem" where
  "smap_fs =
     \<lparr>resolve = (\<lambda>p. p), creatable = (\<lambda>p. True), files = [file_path \<mapsto> H5 smap_h5],
      opened = []\<rparr>"

text \<open>
  A file whose dataset has 3 rows and 3 columns over longitudes and latitudes from 0 to
  1: the resolution is a third, which no \<^verbatim>\<open>float32\<close> is.
\<close>

definition unit_h5 :: "real h5file" where
  "unit_h5 =
     [''g/d'' \<mapsto> \<lparr>shape = [3, 3], elems = [1, 2, 3, 4, 5, 6, 7, 8, 9]\<rparr>,
      ''cell_lat'' \<mapsto> \<lparr>shape = [2], elems = [0, 1]\<rparr>,
      ''cell_lon'' \<mapsto> \<lparr>shape = [2], elems = [0, 1]\<rparr>]"

definition unit_fs :: "real filesystem" where
  "unit_fs =
     \<lparr>resolve = (\<lambda>p. p), creatable = (\<lambda>p. True), files = [''unit.h5'' \<mapsto> H5 unit_h5],
      opened = []\<rparr>"

text \<open>
  The small SMAP file under a name that is also the name of an output raster, in a file
  system that resolves \<^verbatim>\<open>./x\<close> to the place of \<^verbatim>\<open>x\<close>.
\<close>

definition strip_dot :: "string \<Rightarrow> string" where
  "strip_dot p = (if take 2 p = ''./'' then drop 2 p else p)"

definition alias_fs :: "real filesystem" where
  "alias_fs =
     \<lparr>resolve = strip_dot, creatable = (\<lambda>p. True),
      files = [''sm_surface_wetnessRaster.tif'' \<mapsto> H5 smap_h5], opened = []\<rparr>"

section \<open>Properties of the path/row lookup\<close>

lemma checkPoint_geom:
  "geometry f = Some geom \<Longrightarrow>
     checkPoint lib (Some f) pt mode =
       Inr (point_within lib pt (wkt_loads lib (ExportToWkt lib geom)) \<and> MODE f = mode)"
  by (simp add: checkPoint_def)

lemma checkPoint_nogeom:
  "geometry f = None \<Longrightarrow> checkPoint lib (Some f) pt mode = Inl AttributeError"
  by (simp add: checkPoint_def)

lemma checkPoint_Inl: "checkPoint lib x pt mode = Inl e \<Longrightarrow> e = AttributeError"
  by (auto simp: checkPoint_def split: option.splits if_splits)

lemma checkPoint_Inr:
  "checkPoint lib (GetFeature layer i) pt mode = Inr b \<Longrightarrow>
     i < length layer \<and> geometry (layer ! i) \<noteq> None \<and>
     checkPoint lib (Some (layer ! i)) pt mode = Inr b"
  by (auto simp: checkPoint_def GetFeature_def split: option.splits if_splits)

lemma checkPoint_at:
  "i < length layer \<Longrightarrow>
     checkPoint lib (GetFeature layer i) pt mode = checkPoint lib (Some (layer ! i)) pt mode"
  by (simp add: GetFeature_def)

lemma scan_stop:
  assumes "i \<le> k"
    and "\<forall>j. i \<le> j \<and> j < k \<longrightarrow> checkPoint lib (GetFeature layer j) pt mode = Inr False"
    and "checkPoint lib (GetFeature layer k) pt mode \<noteq> Inr False"
  shows "scan lib layer pt mode i =
           (case checkPoint lib (GetFeature layer k) pt mode of
              Inl e \<Rightarrow> Inl e
            | Inr b \<Rightarrow> Inr k)"
  using assms
proof (induction "k - i" arbitrary: i)
  case 0
  then have "i = k" by simp
  with "0.prems"(3) show ?case
    by (subst scan.simps) (auto split: sum.splits)
next
  case (Suc n)
  then have "i < k" by simp
  with Suc.prems(2) have here: "checkPoint lib (GetFeature layer i) pt mode = Inr False"
    by simp
  have "scan lib layer pt mode i = scan lib layer pt mode (i + 1)"
    by (subst scan.simps) (simp add: here)
  moreover have "scan lib layer pt mode (i + 1) =
      (case checkPoint lib (GetFeature layer k) pt mode of Inl e \<Rightarrow> Inl e | Inr b \<Rightarrow> Inr k)"
  proof (rule Suc.hyps(1))
    show "n = k - (i + 1)" using Suc.hyps(2) by simp
    show "i + 1 \<le> k" using \<open>i < k\<close> by simp
    show "\<forall>j. i + 1 \<le> j \<and> j < k \<longrightarrow> checkPoint lib (GetFeature layer j) pt mode = Inr False"
      using Suc.prems(2) by simp
    show "checkPoint lib (GetFeature layer k) pt mode \<noteq> Inr False" by (rule Suc.prems(3))
  qed
  ultimately show ?case by simp
qed

lemma scan_Inr:
  "scan lib layer pt mode i = Inr k \<Longrightarrow>
     i \<le> k \<and> checkPoint lib (GetFeature layer k) pt mode = Inr True \<and>
     (\<forall>j. i \<le> j \<and> j < k \<longrightarrow> checkPoint lib (GetFeature layer j) pt mode = Inr False)"
proof (induction lib layer pt mode i rule: scan.induct)
  case (1 lib layer pt mode i)
  show ?case
  proof (cases "checkPoint lib (GetFeature layer i) pt mode")
    case (Inl e)
    then have "scan lib layer pt mode i = Inl e"
      by (subst scan.simps) simp
    with "1.prems" show ?thesis by simp
  next
    case (Inr b)
    show ?thesis
    proof (cases b)
      case True
      with Inr have "scan lib layer pt mode i = Inr i"
        by (subst scan.simps) simp
      with "1.prems" Inr True show ?thesis by auto
    next
      case False
      with Inr have step: "scan lib layer pt mode i = scan lib layer pt mode (i + 1)"
        by (subst scan.simps) simp
      from "1.IH" [OF Inr] False step "1.prems"
      have ih: "i + 1 \<le> k \<and> checkPoint lib (GetFeature layer k) pt mode = Inr True \<and>
          (\<forall>j. i + 1 \<le> j \<and> j < k \<longrightarrow> checkPoint lib (GetFeature layer j) pt mode = Inr False)"
        by simp
      have "checkPoint lib (GetFeature layer j) pt mode = Inr False" if "i \<le> j" "j < k" for j
      proof (cases "j = i")
        case True
        with Inr False show ?thesis by simp
      next
        case neq: False
        with that ih show ?thesis by simp
      qed
      with ih show ?thesis by simp
    qed
  qed
qed

lemma scan_Inl: "scan lib layer pt mode i = Inl e \<Longrightarrow> e = AttributeError"
proof (induction lib layer pt mode i rule: scan.induct)
  case (1 lib layer pt mode i)
  show ?case
  proof (cases "checkPoint lib (GetFeature layer i) pt mode")
    case (Inl e')
    then have "scan lib layer pt mode i = Inl e'"
      by (subst scan.simps) simp
    with "1.prems" checkPoint_Inl [OF Inl] show ?thesis by simp
  next
    case (Inr b)
    show ?thesis
    proof (cases b)
      case True
      with Inr have "scan lib layer pt mode i = Inr i"
        by (subst scan.simps) simp
      with "1.prems" show ?thesis by simp
    next
      case False
      with Inr have "scan lib layer pt mode i = scan lib layer pt mode (i + 1)"
        by (subst scan.simps) simp
      with "1.IH" [OF Inr] False "1.prems" show ?thesis by simp
    qed
  qed
qed

lemma scan_first:
  assumes "k < length layer"
    and "checkPoint lib (Some (layer ! k)) pt mode = Inr True"
    and "\<forall>j<k. geometry (layer ! j) \<noteq> None"
  shows "\<exists>i\<le>k. scan lib layer pt mode 0 = Inr i"
proof -
  define P where "P j \<longleftrightarrow> checkPoint lib (GetFeature layer j) pt mode = Inr True" for j
  have Pk: "P k" using assms(1,2) by (simp add: P_def checkPoint_at)
  define i where "i = (LEAST j. P j)"
  have Pi: "P i" unfolding i_def using Pk by (rule LeastI)
  have ik: "i \<le> k" unfolding i_def using Pk by (rule Least_le)
  have before: "checkPoint lib (GetFeature layer j) pt mode = Inr False" if "j < i" for j
  proof -
    from that ik assms(1) have j: "j < k" "j < length layer" by simp_all
    with assms(3) obtain geom where "geometry (layer ! j) = Some geom" by auto
    then obtain b where b: "checkPoint lib (Some (layer ! j)) pt mode = Inr b"
      by (simp add: checkPoint_geom)
    have "\<not> P j" using that unfolding i_def by (rule not_less_Least)
    with b j show ?thesis by (cases b) (simp_all add: P_def checkPoint_at)
  qed
  have "scan lib layer pt mode 0 =
      (case checkPoint lib (GetFeature layer i) pt mode of Inl e \<Rightarrow> Inl e | Inr b \<Rightarrow> Inr i)"
    using before Pi by (intro scan_stop) (simp_all add: P_def)
  with Pi ik show ?thesis by (auto simp: P_def)
qed

lemma lookup_of_scan:
  assumes "scan lib layer pt mode 0 = Inr i"
  shows "pathrow_lookup lib layer pt mode = Inr (PATH (layer ! i), ROW (layer ! i))"
proof -
  from scan_Inr [OF assms] have "checkPoint lib (GetFeature layer i) pt mode = Inr True"
    by simp
  from checkPoint_Inr [OF this] have "i < length layer" by simp
  with assms show ?thesis by (simp add: pathrow_lookup_def GetFeature_def)
qed

lemma scan_fuel_enough:
  "checkPoint lib (GetFeature layer k) pt mode \<noteq> Inr False \<Longrightarrow> i \<le> k \<Longrightarrow> k < i + n \<Longrightarrow>
     scan_fuel n lib layer pt mode i = Some (scan lib layer pt mode i)"
proof (induction n arbitrary: i)
  case 0
  then show ?case by simp
next
  case (Suc n)
  show ?case
  proof (cases "checkPoint lib (GetFeature layer i) pt mode")
    case (Inl e)
    then show ?thesis by (subst scan.simps) simp
  next
    case (Inr b)
    show ?thesis
    proof (cases b)
      case True
      with Inr show ?thesis by (subst scan.simps) simp
    next
      case False
      with Inr Suc.prems(1) have "i \<noteq> k" by auto
      with Suc.prems have "i + 1 \<le> k" "k < (i + 1) + n" by simp_all
      from Suc.IH [OF Suc.prems(1) this] Inr False show ?thesis
        by (subst scan.simps) simp
    qed
  qed
qed

lemma colorado_scan: "scan boxlib colorado_layer boulder ''D'' 0 = Inr 2"
  by (simp add: scan.simps colorado_layer_def checkPoint_def GetFeature_def boxlib_def
      box_within_def boulder_def)

lemma colorado_lookup: "pathrow_lookup boxlib colorado_layer boulder ''D'' = Inr (34, 32)"
  by (simp add: pathrow_lookup_def colorado_scan) (simp add: GetFeature_def colorado_layer_def)

lemma colorado_hit:
  "checkPoint boxlib (Some (colorado_layer ! 2)) boulder ''D'' = Inr True"
  by (simp add: colorado_layer_def checkPoint_def boxlib_def box_within_def boulder_def)

lemma colorado_geoms: "\<forall>j<2. geometry (colorado_layer ! j) \<noteq> None"
  by (simp add: colorado_layer_def less_Suc_eq numeral_2_eq_2)

lemma nogeom_hit:
  "checkPoint boxlib (Some (nogeom_layer ! 1)) boulder ''D'' = Inr True"
  by (simp add: nogeom_layer_def checkPoint_def boxlib_def box_within_def boulder_def)

lemma nogeom_scan: "scan boxlib nogeom_layer boulder ''D'' 0 = Inl AttributeError"
  by (simp add: scan.simps nogeom_layer_def checkPoint_def GetFeature_def)

subsection \<open>The direction of the conversion\<close>

text \<open>
  C1 (as the code has it). The lookup takes a point, built from a longitude and a
  latitude, and a mode, and what it prints is a path and a row: whenever it returns,
  the layer has a feature of the given mode that the point is within, and the pair
  printed is the PATH and ROW of this feature. The conversion goes from coordinates to
  the path/row identifier.
\<close>

theorem lookup_latlon_to_pathrow:
  assumes "pathrow_lookup lib layer pt mode = Inr (path, row)"
  shows "latlon_to_pathrow lib layer mode (lon pt, lat pt) (real_of_int path, real_of_int row)"
proof -
  from assms obtain i where i: "scan lib layer pt mode 0 = Inr i"
    by (auto simp: pathrow_lookup_def split: sum.splits)
  from scan_Inr [OF i] have "checkPoint lib (GetFeature layer i) pt mode = Inr True"
    by simp
  from checkPoint_Inr [OF this] obtain geom where inside: "i < length layer"
    and geom: "geometry (layer ! i) = Some geom"
    and hit: "checkPoint lib (Some (layer ! i)) pt mode = Inr True"
    by auto
  from lookup_of_scan [OF i] assms have "path = PATH (layer ! i)" "row = ROW (layer ! i)"
    by simp_all
  moreover from hit geom
  have "point_within lib pt (wkt_loads lib (ExportToWkt lib geom))" "MODE (layer ! i) = mode"
    by (simp_all add: checkPoint_geom)
  moreover from inside have "layer ! i \<in> set layer" by simp
  ultimately show ?thesis
    unfolding latlon_to_pathrow_def using geom
    by (intro bexI [of _ "layer ! i"] exI [of _ geom]) simp_all
qed

theorem lookup_latlon_to_pathrow_witness:
  "pathrow_lookup boxlib colorado_layer boulder ''D'' = Inr (34, 32) \<and>
   latlon_to_pathrow boxlib colorado_layer ''D'' (lon boulder, lat boulder) (34, 32)"
  using lookup_latlon_to_pathrow [OF colorado_lookup] colorado_lookup by simp

text \<open>
  C1 (as the claim states it) fails on the notebook's own run: the program is given the
  coordinates of Boulder and prints path 34, row 32. The input is the path and row of no
  feature, and the output is a point within no feature.
\<close>

theorem lookup_pathrow_to_latlon_counterexample:
  "pathrow_lookup boxlib colorado_layer boulder ''D'' = Inr (34, 32) \<and>
   \<not> pathrow_to_latlon boxlib colorado_layer (lon boulder, lat boulder) (34, 32)"
  by (simp add: colorado_lookup pathrow_to_latlon_def)
    (simp add: colorado_layer_def boulder_def)

subsection \<open>checkPoint\<close>

text \<open>
  C2 (as the code has it). For every feature that has a geometry, every point and every
  mode, \<open>checkPoint\<close> returns \<open>True\<close> exactly when the point is within the feature's
  geometry and the feature's MODE is the given mode, and \<open>False\<close> in every other case.
  On a feature without geometry it returns nothing: it raises an \<open>AttributeError\<close>.
\<close>

theorem checkPoint_containment_and_mode:
  "(geometry f = Some geom \<longrightarrow>
      (checkPoint lib (Some f) pt mode = Inr True) =
        (point_within lib pt (wkt_loads lib (ExportToWkt lib geom)) \<and> MODE f = mode) \<and>
      (checkPoint lib (Some f) pt mode = Inr False) =
        (\<not> (point_within lib pt (wkt_loads lib (ExportToWkt lib geom)) \<and> MODE f = mode))) \<and>
   (geometry f = None \<longrightarrow> checkPoint lib (Some f) pt mode = Inl AttributeError)"
  by (simp add: checkPoint_geom checkPoint_nogeom)

theorem checkPoint_containment_and_mode_witness:
  "geometry (colorado_layer ! 2) = Some \<lparr>west = -106, south = 39, east = -104, north = 41\<rparr> \<and>
   checkPoint boxlib (Some (colorado_layer ! 2)) boulder ''D'' = Inr True \<and>
   checkPoint boxlib (Some (colorado_layer ! 2)) boulder ''A'' = Inr False \<and>
   geometry (nogeom_layer ! 0) = None \<and>
   checkPoint boxlib (Some (nogeom_layer ! 0)) boulder ''D'' = Inl AttributeError"
proof -
  have g: "geometry (colorado_layer ! 2) = Some \<lparr>west = -106, south = 39, east = -104, north = 41\<rparr>"
    by (simp add: colorado_layer_def)
  have n: "geometry (nogeom_layer ! 0) = None"
    by (simp add: nogeom_layer_def)
  have m: "MODE (colorado_layer ! 2) = ''D''"
    by (simp add: colorado_layer_def)
  have w: "point_within boxlib boulder
      (wkt_loads boxlib (ExportToWkt boxlib \<lparr>west = -106, south = 39, east = -104, north = 41\<rparr>))"
    by (simp add: boxlib_def box_within_def boulder_def)
  show ?thesis
    using checkPoint_containment_and_mode [of "colorado_layer ! 2" _ boxlib boulder "''D''"]
      checkPoint_containment_and_mode [of "colorado_layer ! 2" _ boxlib boulder "''A''"]
      checkPoint_containment_and_mode [of "nogeom_layer ! 0" _ boxlib boulder "''D''"]
      g n m w
    by simp
qed

text \<open>
  C2 (as the claim states it) fails on a feature stored without a geometry: the point
  is not within it, and \<open>checkPoint\<close> does not return \<open>False\<close>, it raises.
\<close>

theorem checkPoint_no_geometry_counterexample:
  "checkPoint boxlib (Some \<lparr>geometry = None, MODE = ''D'', PATH = 33, ROW = 32\<rparr>) boulder ''D''
     = Inl AttributeError"
  by (simp add: checkPoint_def)

subsection \<open>The scan stops at the first feature that matches\<close>

text \<open>
  C3 (as the code has it). When some feature of the layer satisfies \<open>checkPoint\<close> for the
  point and the mode, and every feature before it has a geometry, the loop, started at
  index 0, stops at the least index whose feature satisfies \<open>checkPoint\<close>, and the PATH
  and ROW printed are those of the feature at this index.
\<close>

theorem lookup_least_index:
  assumes "k < length layer"
    and "checkPoint lib (Some (layer ! k)) pt mode = Inr True"
    and "\<forall>j<k. geometry (layer ! j) \<noteq> None"
  shows "\<exists>i\<le>k.
           i = (LEAST j. checkPoint lib (GetFeature layer j) pt mode = Inr True) \<and>
           checkPoint lib (GetFeature layer i) pt mode = Inr True \<and>
           (\<forall>j<i. checkPoint lib (GetFeature layer j) pt mode \<noteq> Inr True) \<and>
           scan lib layer pt mode 0 = Inr i \<and>
           pathrow_lookup lib layer pt mode = Inr (PATH (layer ! i), ROW (layer ! i))"
proof -
  from scan_first [OF assms] obtain i where i: "i \<le> k"
    "scan lib layer pt mode 0 = Inr i" by blast
  from scan_Inr [OF i(2)]
  have at_i: "checkPoint lib (GetFeature layer i) pt mode = Inr True"
    and miss: "\<And>j. j < i \<Longrightarrow> checkPoint lib (GetFeature layer j) pt mode = Inr False"
    by simp_all
  have before: "checkPoint lib (GetFeature layer j) pt mode \<noteq> Inr True" if "j < i" for j
    using miss [OF that] by simp
  have "(LEAST j. checkPoint lib (GetFeature layer j) pt mode = Inr True) = i"
  proof (rule Least_equality)
    show "checkPoint lib (GetFeature layer i) pt mode = Inr True" by (rule at_i)
  next
    fix j assume "checkPoint lib (GetFeature layer j) pt mode = Inr True"
    with before show "i \<le> j" by (meson not_le)
  qed
  with i at_i before lookup_of_scan [OF i(2)] show ?thesis by blast
qed

theorem lookup_least_index_witness:
  "checkPoint boxlib (Some (colorado_layer ! 3)) boulder ''D'' = Inr True \<and>
   geometry (colorado_layer ! 0) \<noteq> None \<and> geometry (colorado_layer ! 1) \<noteq> None \<and>
   geometry (colorado_layer ! 2) \<noteq> None \<and>
   (\<exists>i\<le>3.
      i = (LEAST j. checkPoint boxlib (GetFeature colorado_layer j) boulder ''D'' = Inr True) \<and>
      checkPoint boxlib (GetFeature colorado_layer i) boulder ''D'' = Inr True \<and>
      (\<forall>j<i. checkPoint boxlib (GetFeature colorado_layer j) boulder ''D'' \<noteq> Inr True) \<and>
      scan boxlib colorado_layer boulder ''D'' 0 = Inr i \<and>
      pathrow_lookup boxlib colorado_layer boulder ''D'' =
        Inr (PATH (colorado_layer ! i), ROW (colorado_layer ! i))) \<and>
   pathrow_lookup boxlib colorado_layer boulder ''D'' = Inr (34, 32)"
proof -
  have len: "3 < length colorado_layer" by (simp add: colorado_layer_def)
  have hit: "checkPoint boxlib (Some (colorado_layer ! 3)) boulder ''D'' = Inr True"
    by (simp add: colorado_layer_def checkPoint_def boxlib_def box_within_def boulder_def)
  have geoms: "geometry (colorado_layer ! 0) \<noteq> None" "geometry (colorado_layer ! 1) \<noteq> None"
    "geometry (colorado_layer ! 2) \<noteq> None"
    by (simp_all add: colorado_layer_def)
  have all: "\<forall>j<3. geometry (colorado_layer ! j) \<noteq> None"
  proof (intro allI impI)
    fix j :: nat assume "j < 3"
    then have "j = 0 \<or> j = 1 \<or> j = 2" by arith
    with geoms show "geometry (colorado_layer ! j) \<noteq> None" by auto
  qed
  from lookup_least_index [OF len hit all] hit geoms colorado_lookup show ?thesis by blast
qed

text \<open>
  C3 (as the claim states it) fails on a layer whose first feature has no geometry: the
  feature at index 1 satisfies \<open>checkPoint\<close>, and the loop does not stop there, it ends at
  index 0 with the \<open>AttributeError\<close>.
\<close>

theorem lookup_no_geometry_before_match_counterexample:
  "checkPoint boxlib (GetFeature nogeom_layer 1) boulder ''D'' = Inr True \<and>
   scan boxlib nogeom_layer boulder ''D'' 0 = Inl AttributeError"
  by (simp add: nogeom_scan) (simp add: nogeom_layer_def GetFeature_def checkPoint_def
      boxlib_def box_within_def boulder_def)

subsection \<open>The loop ends\<close>

text \<open>
  C4. The loop is a function defined by well-founded recursion on the number of indices
  left, \<open>length layer - i\<close>. When some feature of the layer satisfies \<open>checkPoint\<close>, the
  loop started at 0 has ended, by its return or by the exception of \<open>checkPoint\<close>, within
  as many calls of \<open>checkPoint\<close> as the layer has features.
\<close>

theorem scan_terminates:
  assumes "\<exists>f\<in>set layer. checkPoint lib (Some f) pt mode = Inr True"
  shows "scan_fuel (length layer) lib layer pt mode 0 = Some (scan lib layer pt mode 0)"
proof -
  from assms obtain k where k: "k < length layer"
    "checkPoint lib (Some (layer ! k)) pt mode = Inr True"
    by (auto simp: in_set_conv_nth)
  then have "checkPoint lib (GetFeature layer k) pt mode \<noteq> Inr False"
    by (simp add: checkPoint_at)
  from scan_fuel_enough [OF this, of 0 "length layer"] k(1) show ?thesis by simp
qed

theorem scan_terminates_witness:
  "checkPoint boxlib (Some (colorado_layer ! 2)) boulder ''D'' = Inr True \<and>
   scan_fuel (length colorado_layer) boxlib colorado_layer boulder ''D'' 0 = Some (Inr 2) \<and>
   checkPoint boxlib (Some (nogeom_layer ! 1)) boulder ''D'' = Inr True \<and>
   scan_fuel (length nogeom_layer) boxlib nogeom_layer boulder ''D'' 0 = Some (Inl AttributeError)"
proof -
  have "colorado_layer ! 2 \<in> set colorado_layer" "nogeom_layer ! 1 \<in> set nogeom_layer"
    by (simp_all add: colorado_layer_def nogeom_layer_def)
  with colorado_hit nogeom_hit
  have c: "\<exists>f\<in>set colorado_layer. checkPoint boxlib (Some f) boulder ''D'' = Inr True"
    and n: "\<exists>f\<in>set nogeom_layer. checkPoint boxlib (Some f) boulder ''D'' = Inr True"
    by blast+
  from scan_terminates [OF c] scan_terminates [OF n] colorado_hit nogeom_hit
  show ?thesis by (simp add: colorado_scan nogeom_scan)
qed

subsection \<open>When the lookup completes\<close>

text \<open>
  C5 (as the code has it). The lookup returns a path and row exactly when some feature
  of the layer satisfies \<open>checkPoint\<close> and every feature before it has a geometry. In
  every other case the lookup ends with the \<open>AttributeError\<close> of \<open>checkPoint\<close>, which
  nothing catches: raised on the \<open>None\<close> that \<open>GetFeature\<close> returns past the last feature
  when no feature matches, or on a feature without geometry that the scan reaches
  first.
\<close>

theorem lookup_completes_iff:
  "(\<exists>r. pathrow_lookup lib layer pt mode = Inr r) =
     (\<exists>k<length layer. checkPoint lib (Some (layer ! k)) pt mode = Inr True \<and>
        (\<forall>j<k. geometry (layer ! j) \<noteq> None)) \<and>
   (pathrow_lookup lib layer pt mode = Inl AttributeError) =
     (\<not> (\<exists>k<length layer. checkPoint lib (Some (layer ! k)) pt mode = Inr True \<and>
        (\<forall>j<k. geometry (layer ! j) \<noteq> None)))"
proof (cases "\<exists>k<length layer. checkPoint lib (Some (layer ! k)) pt mode = Inr True \<and>
    (\<forall>j<k. geometry (layer ! j) \<noteq> None)")
  case True
  then obtain k where "k < length layer" "checkPoint lib (Some (layer ! k)) pt mode = Inr True"
    "\<forall>j<k. geometry (layer ! j) \<noteq> None" by blast
  from scan_first [OF this] obtain i where "scan lib layer pt mode 0 = Inr i" by blast
  from lookup_of_scan [OF this] True show ?thesis by simp
next
  case False
  have "pathrow_lookup lib layer pt mode = Inl AttributeError"
  proof (cases "scan lib layer pt mode 0")
    case (Inl e)
    with scan_Inl [OF Inl] show ?thesis by (simp add: pathrow_lookup_def)
  next
    case (Inr i)
    from scan_Inr [OF Inr]
    have at_i: "checkPoint lib (GetFeature layer i) pt mode = Inr True"
      and miss: "\<And>j. j < i \<Longrightarrow> checkPoint lib (GetFeature layer j) pt mode = Inr False"
      by simp_all
    from checkPoint_Inr [OF at_i] have "i < length layer"
      "checkPoint lib (Some (layer ! i)) pt mode = Inr True" by simp_all
    moreover have "\<forall>j<i. geometry (layer ! j) \<noteq> None"
      using checkPoint_Inr [OF miss] by blast
    ultimately show ?thesis using False by blast
  qed
  with False show ?thesis by simp
qed

theorem lookup_completes_iff_witness:
  "pathrow_lookup boxlib colorado_layer (Point 2.5 48.5) ''A'' = Inl AttributeError \<and>
   (\<exists>r. pathrow_lookup boxlib colorado_layer (Point 2.5 48.5) ''D'' = Inr r) \<and>
   pathrow_lookup boxlib nogeom_layer boulder ''D'' = Inl AttributeError"
proof -
  have a: "pathrow_lookup boxlib colorado_layer (Point 2.5 48.5) ''A'' = Inl AttributeError"
    by (simp add: pathrow_lookup_def scan.simps colorado_layer_def checkPoint_def
        GetFeature_def boxlib_def box_within_def)
  have n: "pathrow_lookup boxlib nogeom_layer boulder ''D'' = Inl AttributeError"
    by (simp add: pathrow_lookup_def nogeom_scan)
  have "1 < length colorado_layer"
    "checkPoint boxlib (Some (colorado_layer ! 1)) (Point 2.5 48.5) ''D'' = Inr True"
    "\<forall>j<1. geometry (colorado_layer ! j) \<noteq> None"
    by (simp_all add: colorado_layer_def checkPoint_def boxlib_def box_within_def)
  then have "\<exists>k<length colorado_layer.
      checkPoint boxlib (Some (colorado_layer ! k)) (Point 2.5 48.5) ''D'' = Inr True \<and>
      (\<forall>j<k. geometry (colorado_layer ! j) \<noteq> None)"
    by blast
  with lookup_completes_iff [of boxlib colorado_layer "Point 2.5 48.5" "''D''"] a n
  show ?thesis by simp
qed

text \<open>
  C5 (as the claim states it) fails on the layer whose first feature has no geometry: a
  feature satisfies \<open>checkPoint\<close>, and the lookup does not complete normally.
\<close>

theorem lookup_raises_despite_match_counterexample:
  "checkPoint boxlib (Some (nogeom_layer ! 1)) boulder ''D'' = Inr True \<and>
   pathrow_lookup boxlib nogeom_layer boulder ''D'' = Inl AttributeError"
  using nogeom_hit by (simp add: pathrow_lookup_def nogeom_scan)

section \<open>Properties of the squares cell\<close>

lemma py_range_1_28: "py_range 1 28 = [1, 2, 3, 4, 5, 6, 7, 8, 9, 10, 11, 12, 13, 14, 15, 16, 17, 18, 19, 20,
  21, 22, 23, 24, 25, 26, 27]"
  unfolding py_range_def by code_simp

text \<open>
  C8. With \<open>map_sync\<close> the sequential map, the cell squares each element of
  \<^verbatim>\<open>range(1,28)\<close>: the result is the 27 squares of 1 to 27, in order, and the square of
  28 is not among them.
\<close>

theorem squares_of_1_to_27:
  "squares = map (\<lambda>x. x ^ 2) (py_range 1 28) \<and>
   squares = [1, 4, 9, 16, 25, 36, 49, 64, 81, 100, 121, 144, 169, 196, 225, 256, 289, 324,
     361, 400, 441, 484, 529, 576, 625, 676, 729] \<and>
   length squares = 27 \<and>
   28 ^ 2 \<notin> set squares"
  by (simp add: squares_def map_sync_def py_range_1_28)

section \<open>Properties of the raster conversion\<close>

subsection \<open>What a call of smap2raster does, case by case\<close>

lemma amin_Some:
  "amin np a = Inr (Some x) \<longleftrightarrow> (\<exists>arr. a = Some arr \<and> elems arr \<noteq> [] \<and> x = np_min np (elems arr))"
  by (auto simp: amin_def split: option.splits)

lemma amax_Some:
  "amax np a = Inr (Some x) \<longleftrightarrow> (\<exists>arr. a = Some arr \<and> elems arr \<noteq> [] \<and> x = np_max np (elems arr))"
  by (auto simp: amax_def split: option.splits)

lemma smap2raster_no_h5:
  assumes "\<forall>h. files st (resolve st inputFile) \<noteq> Some (H5 h)"
  shows "smap2raster np inputFile grp dataset st = (Inl IOError, st)"
  using assms by (simp add: smap2raster_def split: option.splits file_content.splits)

lemma smap2raster_read_fails:
  assumes "files st (resolve st inputFile) = Some (H5 h)"
    and "\<not> (\<exists>cols rows x0 x1 y0 y1.
           shape_at (h (grp @ ''/'' @ dataset)) 1 = Inr cols \<and>
           shape_at (h (grp @ ''/'' @ dataset)) 0 = Inr rows \<and>
           amin np (h ''cell_lon'') = Inr (Some x0) \<and> amax np (h ''cell_lon'') = Inr (Some x1) \<and>
           amin np (h ''cell_lat'') = Inr (Some y0) \<and> amax np (h ''cell_lat'') = Inr (Some y1))"
  shows "\<exists>e. smap2raster np inputFile grp dataset st =
           (Inl e, st\<lparr>opened := (resolve st inputFile, ReadOnly) # opened st\<rparr>)"
  using assms
  by (auto simp: smap2raster_def Let_def split: sum.splits option.splits)

lemma smap2raster_read_ok:
  assumes "files st (resolve st inputFile) = Some (H5 h)"
    and "shape_at (h (grp @ ''/'' @ dataset)) 1 = Inr cols"
    and "shape_at (h (grp @ ''/'' @ dataset)) 0 = Inr rows"
    and "amin np (h ''cell_lon'') = Inr (Some x0)" and "amax np (h ''cell_lon'') = Inr (Some x1)"
    and "amin np (h ''cell_lat'') = Inr (Some y0)" and "amax np (h ''cell_lat'') = Inr (Some y1)"
  shows "smap2raster np inputFile grp dataset st =
     (if cols = 0 \<or> rows = 0 \<or> \<not> creatable st (resolve st (dataset @ ''Raster.tif''))
      then (Inl AttributeError, st\<lparr>opened := (resolve st inputFile, ReadOnly) # opened st\<rparr>)
      else if length (shape (the (h (grp @ ''/'' @ dataset)))) \<noteq> 2
      then (Inl ValueError,
            st\<lparr>opened := (resolve st inputFile, ReadOnly) # opened st,
               files := (files st)(resolve st (dataset @ ''Raster.tif'') \<mapsto> GTiff
                 \<lparr>RasterXSize = int cols, RasterYSize = int rows, RasterCount = 1,
                  DataType = GDT_Float32,
                  GeoTransform = Some (doubles np
                    (x0, np_div np (np_sub np x1 x0) (py_float np cols), py_zero np, y1,
                     py_zero np, np_neg np (np_div np (np_sub np y1 y0) (py_float np rows)))),
                  Projection = Some (EPSG 4326), Band1 = None\<rparr>)\<rparr>)
      else (Inr (),
            st\<lparr>files := (files st)(resolve st (dataset @ ''Raster.tif'') \<mapsto> GTiff
                 \<lparr>RasterXSize = int cols, RasterYSize = int rows, RasterCount = 1,
                  DataType = GDT_Float32,
                  GeoTransform = Some (doubles np
                    (x0, np_div np (np_sub np x1 x0) (py_float np cols), py_zero np, y1,
                     py_zero np, np_neg np (np_div np (np_sub np y1 y0) (py_float np rows)))),
                  Projection = Some (EPSG 4326),
                  Band1 = Some (map (to_float32 np) (elems (the (h (grp @ ''/'' @ dataset)))))\<rparr>)\<rparr>))"
proof -
  from assms(2) obtain data where data: "h (grp @ ''/'' @ dataset) = Some data"
    by (auto simp: shape_at_def split: option.splits)
  from assms(2,3) data have dims: "shape data ! 1 = cols" "shape data ! 0 = rows"
    by (auto simp: shape_at_def split: if_splits)
  show ?thesis
    using assms data dims
    by (simp add: smap2raster_def Create_def SetGeoTransform_def SetProjection_def
        ImportFromEPSG_def WriteArray_def h5_close_def Let_def)
qed

lemma smap_input_ok_iff:
  "smap_input_ok inputFile grp dataset st \<longleftrightarrow>
     (\<exists>h data cols rows. files st (resolve st inputFile) = Some (H5 h) \<and>
        h (grp @ ''/'' @ dataset) = Some data \<and> shape data = [rows, cols] \<and>
        0 < rows \<and> 0 < cols \<and>
        (\<exists>np_lon. h ''cell_lon'' = Some np_lon \<and> elems np_lon \<noteq> []) \<and>
        (\<exists>np_lat. h ''cell_lat'' = Some np_lat \<and> elems np_lat \<noteq> []) \<and>
        creatable st (resolve st (dataset @ ''Raster.tif'')))"
  (is "?L \<longleftrightarrow> ?R")
proof
  assume ?L
  then obtain h data np_lat np_lon where h: "files st (resolve st inputFile) = Some (H5 h)"
    "h (grp @ ''/'' @ dataset) = Some data" "length (shape data) = 2"
    "0 < shape data ! 0" "0 < shape data ! 1"
    "h ''cell_lat'' = Some np_lat" "elems np_lat \<noteq> []" "h ''cell_lon'' = Some np_lon" "elems np_lon \<noteq> []"
    "creatable st (resolve st (dataset @ ''Raster.tif''))"
    by (auto simp: smap_input_ok_def split: option.splits file_content.splits)
  from h(3) obtain rows cols where "shape data = [rows, cols]"
    by (cases "shape data" rule: list.exhaust; simp)
      (metis length_0_conv length_Suc_conv)
  with h show ?R by auto
next
  assume ?R
  then show ?L by (auto simp: smap_input_ok_def)
qed

lemma smap2raster_ok:
  assumes "files st (resolve st inputFile) = Some (H5 h)"
    and "h (grp @ ''/'' @ dataset) = Some data"
    and "shape data = [rows, cols]" and "0 < rows" and "0 < cols"
    and "h ''cell_lon'' = Some np_lon" and "elems np_lon \<noteq> []"
    and "h ''cell_lat'' = Some np_lat" and "elems np_lat \<noteq> []"
    and "creatable st (resolve st (dataset @ ''Raster.tif''))"
  shows "smap2raster np inputFile grp dataset st =
    (Inr (), st\<lparr>files := (files st)(resolve st (dataset @ ''Raster.tif'') \<mapsto> GTiff
       \<lparr>RasterXSize = int cols, RasterYSize = int rows, RasterCount = 1,
        DataType = GDT_Float32,
        GeoTransform = Some (doubles np
          (np_min np (elems np_lon),
           np_div np (np_sub np (np_max np (elems np_lon)) (np_min np (elems np_lon))) (py_float np cols),
           py_zero np, np_max np (elems np_lat), py_zero np,
           np_neg np (np_div np (np_sub np (np_max np (elems np_lat)) (np_min np (elems np_lat)))
             (py_float np rows)))),
        Projection = Some (EPSG 4326), Band1 = Some (map (to_float32 np) (elems data))\<rparr>)\<rparr>)"
proof -
  have reads: "shape_at (h (grp @ ''/'' @ dataset)) 1 = Inr cols"
    "shape_at (h (grp @ ''/'' @ dataset)) 0 = Inr rows"
    "amin np (h ''cell_lon'') = Inr (Some (np_min np (elems np_lon)))"
    "amax np (h ''cell_lon'') = Inr (Some (np_max np (elems np_lon)))"
    "amin np (h ''cell_lat'') = Inr (Some (np_min np (elems np_lat)))"
    "amax np (h ''cell_lat'') = Inr (Some (np_max np (elems np_lat)))"
    using assms(2-9) by (simp_all add: shape_at_def amin_def amax_def)
  from smap2raster_read_ok [OF assms(1) reads] assms(2-5,10) show ?thesis by simp
qed

lemma smap2raster_ok_ex:
  assumes "smap_input_ok inputFile grp dataset st"
  shows "\<exists>r. smap2raster np inputFile grp dataset st =
           (Inr (), st\<lparr>files := (files st)(resolve st (dataset @ ''Raster.tif'') \<mapsto> GTiff r)\<rparr>)"
proof -
  from assms obtain h data cols rows np_lon np_lat where
    "files st (resolve st inputFile) = Some (H5 h)"
    "h (grp @ ''/'' @ dataset) = Some data" "shape data = [rows, cols]" "0 < rows" "0 < cols"
    "h ''cell_lon'' = Some np_lon" "elems np_lon \<noteq> []" "h ''cell_lat'' = Some np_lat" "elems np_lat \<noteq> []"
    "creatable st (resolve st (dataset @ ''Raster.tif''))"
    unfolding smap_input_ok_iff by blast
  from smap2raster_ok [OF this] show ?thesis by blast
qed

lemma smap2raster_returns_iff:
  "fst (smap2raster np inputFile grp dataset st) = Inr () \<longleftrightarrow>
     smap_input_ok inputFile grp dataset st"
proof
  assume "smap_input_ok inputFile grp dataset st"
  from smap2raster_ok_ex [OF this, of np]
  show "fst (smap2raster np inputFile grp dataset st) = Inr ()" by auto
next
  assume ret: "fst (smap2raster np inputFile grp dataset st) = Inr ()"
  show "smap_input_ok inputFile grp dataset st"
  proof (cases "\<exists>h. files st (resolve st inputFile) = Some (H5 h)")
    case False
    then have "smap2raster np inputFile grp dataset st = (Inl IOError, st)"
      by (intro smap2raster_no_h5) simp
    with ret show ?thesis by simp
  next
    case True
    then obtain h where h: "files st (resolve st inputFile) = Some (H5 h)" by blast
    let ?data = "h (grp @ ''/'' @ dataset)"
    show ?thesis
    proof (cases "\<exists>cols rows x0 x1 y0 y1.
           shape_at ?data 1 = Inr cols \<and> shape_at ?data 0 = Inr rows \<and>
           amin np (h ''cell_lon'') = Inr (Some x0) \<and> amax np (h ''cell_lon'') = Inr (Some x1) \<and>
           amin np (h ''cell_lat'') = Inr (Some y0) \<and> amax np (h ''cell_lat'') = Inr (Some y1)")
      case False
      from smap2raster_read_fails [OF h False] ret show ?thesis by auto
    next
      case True
      then obtain cols rows x0 x1 y0 y1 where r: "shape_at ?data 1 = Inr cols"
        "shape_at ?data 0 = Inr rows"
        "amin np (h ''cell_lon'') = Inr (Some x0)" "amax np (h ''cell_lon'') = Inr (Some x1)"
        "amin np (h ''cell_lat'') = Inr (Some y0)" "amax np (h ''cell_lat'') = Inr (Some y1)"
        by blast
      from r(1) obtain data where data: "?data = Some data"
        by (auto simp: shape_at_def split: option.splits)
      from smap2raster_read_ok [OF h r] ret data
      have "cols \<noteq> 0" "rows \<noteq> 0" "length (shape data) = 2"
        "creatable st (resolve st (dataset @ ''Raster.tif''))"
        by (auto split: if_splits)
      moreover from r(1,2) data have "shape data ! 1 = cols" "shape data ! 0 = rows"
        by (auto simp: shape_at_def split: if_splits)
      moreover from r(3,5) have "\<exists>a. h ''cell_lon'' = Some a \<and> elems a \<noteq> []"
        "\<exists>a. h ''cell_lat'' = Some a \<and> elems a \<noteq> []"
        by (auto simp: amin_Some)
      ultimately show ?thesis
        using h data by (auto simp: smap_input_ok_def)
    qed
  qed
qed

lemma smap2raster_effect:
  assumes "smap2raster np inputFile grp dataset st = (res, st')"
  shows "(\<exists>h data r x0 x1 y0 y1.
            files st (resolve st inputFile) = Some (H5 h) \<and>
            h (grp @ ''/'' @ dataset) = Some data \<and>
            2 \<le> length (shape data) \<and>
            amin np (h ''cell_lon'') = Inr (Some x0) \<and> amax np (h ''cell_lon'') = Inr (Some x1) \<and>
            amin np (h ''cell_lat'') = Inr (Some y0) \<and> amax np (h ''cell_lat'') = Inr (Some y1) \<and>
            files st' = (files st)(resolve st (dataset @ ''Raster.tif'') \<mapsto> GTiff r) \<and>
            RasterXSize r = int (shape data ! 1) \<and> RasterYSize r = int (shape data ! 0) \<and>
            RasterCount r = 1 \<and> DataType r = GDT_Float32 \<and> Projection r = Some (EPSG 4326) \<and>
            GeoTransform r = Some (doubles np
              (x0, np_div np (np_sub np x1 x0) (py_float np (shape data ! 1)), py_zero np, y1,
               py_zero np,
               np_neg np (np_div np (np_sub np y1 y0) (py_float np (shape data ! 0)))))) \<or>
         (res \<noteq> Inr () \<and> files st' = files st)"
proof (cases "\<exists>h. files st (resolve st inputFile) = Some (H5 h)")
  case False
  then have "smap2raster np inputFile grp dataset st = (Inl IOError, st)"
    by (intro smap2raster_no_h5) simp
  with assms show ?thesis by auto
next
  case True
  then obtain h where h: "files st (resolve st inputFile) = Some (H5 h)" by blast
  let ?data = "h (grp @ ''/'' @ dataset)"
  show ?thesis
  proof (cases "\<exists>cols rows x0 x1 y0 y1.
         shape_at ?data 1 = Inr cols \<and> shape_at ?data 0 = Inr rows \<and>
         amin np (h ''cell_lon'') = Inr (Some x0) \<and> amax np (h ''cell_lon'') = Inr (Some x1) \<and>
         amin np (h ''cell_lat'') = Inr (Some y0) \<and> amax np (h ''cell_lat'') = Inr (Some y1)")
    case False
    from smap2raster_read_fails [OF h False] assms show ?thesis by auto
  next
    case True
    then obtain cols rows x0 x1 y0 y1 where r: "shape_at ?data 1 = Inr cols"
      "shape_at ?data 0 = Inr rows"
      "amin np (h ''cell_lon'') = Inr (Some x0)" "amax np (h ''cell_lon'') = Inr (Some x1)"
      "amin np (h ''cell_lat'') = Inr (Some y0)" "amax np (h ''cell_lat'') = Inr (Some y1)"
      by blast
    from r(1) obtain data where data: "?data = Some data"
      by (auto simp: shape_at_def split: option.splits)
    from r(1,2) data have dims: "shape data ! 1 = cols" "shape data ! 0 = rows"
      by (auto simp: shape_at_def split: if_splits)
    from r(1) data have len: "2 \<le> length (shape data)"
      by (auto simp: shape_at_def split: if_splits)
    note run = smap2raster_read_ok [OF h r]
    show ?thesis
    proof (cases "cols = 0 \<or> rows = 0 \<or> \<not> creatable st (resolve st (dataset @ ''Raster.tif''))")
      case True
      with run assms show ?thesis by auto
    next
      case False
      with run assms data
      have "\<exists>r. files st' = (files st)(resolve st (dataset @ ''Raster.tif'') \<mapsto> GTiff r) \<and>
          RasterXSize r = int cols \<and> RasterYSize r = int rows \<and>
          RasterCount r = 1 \<and> DataType r = GDT_Float32 \<and> Projection r = Some (EPSG 4326) \<and>
          GeoTransform r = Some (doubles np
            (x0, np_div np (np_sub np x1 x0) (py_float np cols), py_zero np, y1, py_zero np,
             np_neg np (np_div np (np_sub np y1 y0) (py_float np rows))))"
        by (cases "length (shape data) = 2") auto
      with h data r dims len show ?thesis by blast
    qed
  qed
qed

lemma smap2raster_opened:
  assumes "smap2raster np inputFile grp dataset st = (res, st')"
  shows "(res = Inr () \<longrightarrow> opened st' = opened st) \<and>
         (opened st' = opened st \<or> opened st' = (resolve st inputFile, ReadOnly) # opened st) \<and>
         resolve st' = resolve st \<and> creatable st' = creatable st"
proof (cases "\<exists>h. files st (resolve st inputFile) = Some (H5 h)")
  case False
  then have "smap2raster np inputFile grp dataset st = (Inl IOError, st)"
    by (intro smap2raster_no_h5) simp
  with assms show ?thesis by auto
next
  case True
  then obtain h where h: "files st (resolve st inputFile) = Some (H5 h)" by blast
  let ?data = "h (grp @ ''/'' @ dataset)"
  show ?thesis
  proof (cases "\<exists>cols rows x0 x1 y0 y1.
         shape_at ?data 1 = Inr cols \<and> shape_at ?data 0 = Inr rows \<and>
         amin np (h ''cell_lon'') = Inr (Some x0) \<and> amax np (h ''cell_lon'') = Inr (Some x1) \<and>
         amin np (h ''cell_lat'') = Inr (Some y0) \<and> amax np (h ''cell_lat'') = Inr (Some y1)")
    case False
    from smap2raster_read_fails [OF h False] assms show ?thesis by auto
  next
    case True
    then obtain cols rows x0 x1 y0 y1 where r: "shape_at ?data 1 = Inr cols"
      "shape_at ?data 0 = Inr rows"
      "amin np (h ''cell_lon'') = Inr (Some x0)" "amax np (h ''cell_lon'') = Inr (Some x1)"
      "amin np (h ''cell_lat'') = Inr (Some y0)" "amax np (h ''cell_lat'') = Inr (Some y1)"
      by blast
    from smap2raster_read_ok [OF h r] assms show ?thesis
      by (auto split: if_splits)
  qed
qed

lemma file_path_no_raster: "file_path \<noteq> d @ ''Raster.tif''"
proof
  assume "file_path = d @ ''Raster.tif''"
  then have "last file_path = last (d @ ''Raster.tif'')" by simp
  then show False by (simp add: file_path_def)
qed



lemma binary32_eval:
  assumes "2 powr of_int n \<le> \<bar>x\<bar>" and "\<bar>x\<bar> < 2 powr (of_int n + 1)"
  shows "binary32 x =
    of_int (round_half_even (x * 2 powr (23 - of_int n))) * 2 powr (of_int n - 23)"
proof -
  have pos: "0 < \<bar>x\<bar>"
    using assms(1) by (smt (verit) powr_gt_zero)
  then have nz: "x \<noteq> 0" by simp
  have "of_int n \<le> log 2 \<bar>x\<bar>" using assms(1) pos by (simp add: le_log_iff)
  moreover have "log 2 \<bar>x\<bar> < of_int n + 1" using assms(2) pos by (simp add: log_less_iff)
  ultimately have "\<lfloor>log 2 \<bar>x\<bar>\<rfloor> = n" by (simp add: floor_eq_iff)
  with nz show ?thesis by (simp add: binary32_def)
qed

lemma binary32_third: "binary32 (1 / 3) = 11184811 / 2 ^ 25"
  using binary32_eval [of "-2" "1 / 3"]
  by (simp add: round_half_even_def powr_minus_divide)

lemma binary32_values:
  "binary32 1 = 1" "binary32 20 = 20" "binary32 40 = 40" "binary32 60 = 60"
  using binary32_eval [of 0 1] binary32_eval [of 4 20] binary32_eval [of 5 40]
    binary32_eval [of 5 60]
  by (simp_all add: round_half_even_def powr_minus_divide)

lemma smap_h5_geotransform:
  "doubles float32_np
     (np_min float32_np [-120, -90, -60, -120, -90, -60],
      np_div float32_np
        (np_sub float32_np (np_max float32_np [-120, -90, -60, -120, -90, -60])
           (np_min float32_np [-120, -90, -60, -120, -90, -60])) (py_float float32_np 3),
      py_zero float32_np, np_max float32_np [60, 60, 60, 20, 20, 20], py_zero float32_np,
      np_neg float32_np
        (np_div float32_np
           (np_sub float32_np (np_max float32_np [60, 60, 60, 20, 20, 20])
              (np_min float32_np [60, 60, 60, 20, 20, 20])) (py_float float32_np 2)))
   = (-120, 20, 0, 60, 0, -20)"
  by (simp add: doubles_def float32_np_def binary32_values)

lemma smap_h5_wetness:
  assumes "files st (resolve st inputFile) = Some (H5 smap_h5)"
    and "creatable st (resolve st (''sm_surface_wetness'' @ ''Raster.tif''))"
  shows "\<exists>r. smap2raster float32_np inputFile which_group ''sm_surface_wetness'' st =
           (Inr (), st\<lparr>files := (files st)
              (resolve st (''sm_surface_wetness'' @ ''Raster.tif'') \<mapsto> GTiff r)\<rparr>) \<and>
         RasterXSize r = 3 \<and> RasterYSize r = 2 \<and> RasterCount r = 1 \<and>
         DataType r = GDT_Float32 \<and> Projection r = Some (EPSG 4326) \<and>
         GeoTransform r = Some (-120, 20, 0, 60, 0, -20)"
proof -
  let ?data = "\<lparr>shape = [2, 3], elems = [0.25, 0.5, 0.75, 0.125, 0.375, 0.625]\<rparr> :: real ndarray"
  let ?lon = "\<lparr>shape = [2, 3], elems = [-120, -90, -60, -120, -90, -60]\<rparr> :: real ndarray"
  let ?lat = "\<lparr>shape = [2, 3], elems = [60, 60, 60, 20, 20, 20]\<rparr> :: real ndarray"
  have d: "smap_h5 (which_group @ ''/'' @ ''sm_surface_wetness'') = Some ?data"
    by (simp add: smap_h5_def which_group_def)
  have lo: "smap_h5 ''cell_lon'' = Some ?lon" and la: "smap_h5 ''cell_lat'' = Some ?lat"
    by (simp_all add: smap_h5_def)
  have s: "shape ?data = [2, 3]" and r: "0 < (2::nat)" and c: "0 < (3::nat)"
    and lne: "elems ?lon \<noteq> []" and lane: "elems ?lat \<noteq> []"
    by simp_all
  note run = smap2raster_ok [OF assms(1) d s r c lo lne la lane assms(2), of float32_np]
  show ?thesis
    by (rule exI, rule conjI, rule run) (simp add: smap_h5_geotransform)
qed

lemma smap_h5_soil_temp:
  assumes "files st (resolve st inputFile) = Some (H5 smap_h5)"
    and "creatable st (resolve st (''soil_temp_layer2'' @ ''Raster.tif''))"
  shows "\<exists>r. smap2raster float32_np inputFile which_group ''soil_temp_layer2'' st =
           (Inr (), st\<lparr>files := (files st)
              (resolve st (''soil_temp_layer2'' @ ''Raster.tif'') \<mapsto> GTiff r)\<rparr>) \<and>
         RasterXSize r = 3 \<and> RasterYSize r = 2 \<and> RasterCount r = 1 \<and>
         DataType r = GDT_Float32 \<and> Projection r = Some (EPSG 4326) \<and>
         GeoTransform r = Some (-120, 20, 0, 60, 0, -20)"
proof -
  let ?data = "\<lparr>shape = [2, 3], elems = [271, 272, 273, 281, 282, 283]\<rparr> :: real ndarray"
  let ?lon = "\<lparr>shape = [2, 3], elems = [-120, -90, -60, -120, -90, -60]\<rparr> :: real ndarray"
  let ?lat = "\<lparr>shape = [2, 3], elems = [60, 60, 60, 20, 20, 20]\<rparr> :: real ndarray"
  have d: "smap_h5 (which_group @ ''/'' @ ''soil_temp_layer2'') = Some ?data"
    by (simp add: smap_h5_def which_group_def)
  have lo: "smap_h5 ''cell_lon'' = Some ?lon" and la: "smap_h5 ''cell_lat'' = Some ?lat"
    by (simp_all add: smap_h5_def)
  have s: "shape ?data = [2, 3]" and r: "0 < (2::nat)" and c: "0 < (3::nat)"
    and lne: "elems ?lon \<noteq> []" and lane: "elems ?lat \<noteq> []"
    by simp_all
  note run = smap2raster_ok [OF assms(1) d s r c lo lne la lane assms(2), of float32_np]
  show ?thesis
    by (rule exI, rule conjI, rule run) (simp add: smap_h5_geotransform)
qed

lemma smap_fs_file: "files smap_fs (resolve smap_fs file_path) = Some (H5 smap_h5)"
  by (simp add: smap_fs_def)

lemma smap_fs_creatable: "creatable smap_fs place"
  by (simp add: smap_fs_def)

lemma smap_fs_resolve: "resolve smap_fs p = p"
  by (simp add: smap_fs_def)


lemma smap_fs_snow_mass:
  "smap2raster float32_np file_path which_group ''snow_mass'' smap_fs =
     (Inl IndexError, smap_fs\<lparr>opened := [(file_path, ReadOnly)]\<rparr>)"
  by (simp add: smap2raster_def smap_fs_def smap_h5_def which_group_def file_path_def
      shape_at_def)

lemma alias_fs_file:
  "files alias_fs (resolve alias_fs ''sm_surface_wetnessRaster.tif'') = Some (H5 smap_h5)"
  "files alias_fs (resolve alias_fs ''./sm_surface_wetnessRaster.tif'') = Some (H5 smap_h5)"
  by (simp_all add: alias_fs_def strip_dot_def)

lemma alias_fs_resolve:
  "resolve alias_fs ''sm_surface_wetnessRaster.tif'' = ''sm_surface_wetnessRaster.tif''"
  "resolve alias_fs ''./sm_surface_wetnessRaster.tif'' = ''sm_surface_wetnessRaster.tif''"
  "resolve alias_fs (''sm_surface_wetness'' @ ''Raster.tif'') = ''sm_surface_wetnessRaster.tif''"
  by (simp_all add: alias_fs_def strip_dot_def)

lemma alias_fs_creatable: "creatable alias_fs place"
  by (simp add: alias_fs_def)

subsection \<open>The loop over the dataset names\<close>




subsection \<open>The geotransform\<close>

text \<open>
  C7. Let the dataset be an array of \<open>num_rows\<close> rows and \<open>num_cols\<close> columns, and let
  \<open>xmin\<close>, \<open>xmax\<close> be what numpy's \<open>min\<close> and \<open>max\<close> give for \<^verbatim>\<open>cell_lon\<close> and \<open>ymin\<close>,
  \<open>ymax\<close> for \<^verbatim>\<open>cell_lat\<close>. Then the geotransform that \<open>smap2raster\<close> sets is
  \<open>(xmin, (xmax - xmin) / num_cols, 0, ymax, 0, - ((ymax - ymin) / num_rows))\<close>, each
  operation being numpy's, in whatever arithmetic that is, and the six numbers kept as
  doubles. The one case in which it sets none is that \<^verbatim>\<open>Create\<close> returned \<^verbatim>\<open>None\<close>, for
  an array with no row or no column or where no file can be created: then the call
  raises and writes nothing.
\<close>

theorem smap2raster_geotransform:
  assumes "files st (resolve st inputFile) = Some (H5 h)"
    and "h (grp @ ''/'' @ dataset) = Some np_data"
    and "shape np_data = [num_rows, num_cols]"
    and "h ''cell_lon'' = Some np_lon" and "elems np_lon \<noteq> []"
    and "h ''cell_lat'' = Some np_lat" and "elems np_lat \<noteq> []"
    and "xmin = np_min np (elems np_lon)" and "xmax = np_max np (elems np_lon)"
    and "ymin = np_min np (elems np_lat)" and "ymax = np_max np (elems np_lat)"
    and "smap2raster np inputFile grp dataset st = (res, st')"
  shows "if 0 < num_rows \<and> 0 < num_cols \<and> creatable st (resolve st (dataset @ ''Raster.tif''))
         then res = Inr () \<and>
              (\<exists>r. files st' (resolve st (dataset @ ''Raster.tif'')) = Some (GTiff r) \<and>
                 GeoTransform r = Some (doubles np
                   (xmin, np_div np (np_sub np xmax xmin) (py_float np num_cols), py_zero np,
                    ymax, py_zero np,
                    np_neg np (np_div np (np_sub np ymax ymin) (py_float np num_rows)))))
         else res = Inl AttributeError \<and> files st' = files st"
proof (cases "0 < num_rows \<and> 0 < num_cols \<and> creatable st (resolve st (dataset @ ''Raster.tif''))")
  case True
  then have ok: "0 < num_rows" "0 < num_cols"
    "creatable st (resolve st (dataset @ ''Raster.tif''))" by simp_all
  from smap2raster_ok [OF assms(1-3) ok(1,2) assms(4-7) ok(3), of np] assms(8-12) True
  show ?thesis by auto
next
  case False
  have reads: "shape_at (h (grp @ ''/'' @ dataset)) 1 = Inr num_cols"
    "shape_at (h (grp @ ''/'' @ dataset)) 0 = Inr num_rows"
    "amin np (h ''cell_lon'') = Inr (Some xmin)" "amax np (h ''cell_lon'') = Inr (Some xmax)"
    "amin np (h ''cell_lat'') = Inr (Some ymin)" "amax np (h ''cell_lat'') = Inr (Some ymax)"
    using assms(2-11) by (simp_all add: shape_at_def amin_def amax_def)
  from smap2raster_read_ok [OF assms(1) reads] assms(12) False
  show ?thesis by auto
qed

text \<open>
  With the arithmetic of \<^verbatim>\<open>float32\<close>, a dataset of 3 rows and 3 columns and longitudes
  and latitudes from 0 to 1, the resolution set is the \<^verbatim>\<open>float32\<close> next to a third.
\<close>

theorem smap2raster_geotransform_witness:
  "\<exists>r. fst (smap2raster float32_np ''unit.h5'' ''g'' ''d'' unit_fs) = Inr () \<and>
        files (snd (smap2raster float32_np ''unit.h5'' ''g'' ''d'' unit_fs)) ''dRaster.tif'' =
          Some (GTiff r) \<and>
        GeoTransform r = Some (0, 11184811 / 2 ^ 25, 0, 1, 0, - (11184811 / 2 ^ 25))"
proof -
  let ?data = "\<lparr>shape = [3, 3], elems = [1, 2, 3, 4, 5, 6, 7, 8, 9]\<rparr> :: real ndarray"
  let ?lon = "\<lparr>shape = [2], elems = [0, 1]\<rparr> :: real ndarray"
  let ?run = "smap2raster float32_np ''unit.h5'' ''g'' ''d'' unit_fs"
  have f: "files unit_fs (resolve unit_fs ''unit.h5'') = Some (H5 unit_h5)"
    by (simp add: unit_fs_def)
  have d: "unit_h5 (''g'' @ ''/'' @ ''d'') = Some ?data"
    and lo: "unit_h5 ''cell_lon'' = Some ?lon" and la: "unit_h5 ''cell_lat'' = Some ?lon"
    by (simp_all add: unit_h5_def)
  have s: "shape ?data = [3, 3]" and lne: "elems ?lon \<noteq> []"
    by simp_all
  have run: "?run = (fst ?run, snd ?run)" by simp
  from smap2raster_geotransform [OF f d s lo lne la lne refl refl refl refl run]
  show ?thesis
    by (simp add: unit_fs_def doubles_def float32_np_def binary32_values binary32_third)
qed

subsection \<open>The fixed properties of the raster\<close>

text \<open>
  C9 (as the code has it). A call returns normally exactly when the input file holds
  what the call reads and the raster can be created (\<open>smap_input_ok\<close>). Whatever the
  file, the group and the dataset name, a call either raises and leaves every file as
  it was, or has written, at the dataset's name followed by \<open>Raster.tif\<close>, a raster with
  one band, pixel type Float32, projection EPSG:4326, a width and a height that are the
  second and the first dimension of the dataset's array, and a geotransform computed
  from the extent of the arrays at the top-level names \<^verbatim>\<open>cell_lon\<close> and \<^verbatim>\<open>cell_lat\<close> of
  the file, not from anything in the group.
\<close>

theorem smap2raster_fixed_properties:
  assumes "smap2raster np inputFile grp dataset st = (res, st')"
  shows "(res = Inr ()) = smap_input_ok inputFile grp dataset st \<and>
         ((\<exists>h data r x0 x1 y0 y1.
            files st (resolve st inputFile) = Some (H5 h) \<and>
            h (grp @ ''/'' @ dataset) = Some data \<and>
            2 \<le> length (shape data) \<and>
            amin np (h ''cell_lon'') = Inr (Some x0) \<and> amax np (h ''cell_lon'') = Inr (Some x1) \<and>
            amin np (h ''cell_lat'') = Inr (Some y0) \<and> amax np (h ''cell_lat'') = Inr (Some y1) \<and>
            files st' = (files st)(resolve st (dataset @ ''Raster.tif'') \<mapsto> GTiff r) \<and>
            RasterXSize r = int (shape data ! 1) \<and> RasterYSize r = int (shape data ! 0) \<and>
            RasterCount r = 1 \<and> DataType r = GDT_Float32 \<and> Projection r = Some (EPSG 4326) \<and>
            GeoTransform r = Some (doubles np
              (x0, np_div np (np_sub np x1 x0) (py_float np (shape data ! 1)), py_zero np, y1,
               py_zero np,
               np_neg np (np_div np (np_sub np y1 y0) (py_float np (shape data ! 0)))))) \<or>
          (res \<noteq> Inr () \<and> files st' = files st))"
proof (rule conjI)
  from smap2raster_returns_iff [of np inputFile grp dataset st] assms
  show "(res = Inr ()) = smap_input_ok inputFile grp dataset st" by simp
next
  from smap2raster_effect [OF assms]
  show "(\<exists>h data r x0 x1 y0 y1.
            files st (resolve st inputFile) = Some (H5 h) \<and>
            h (grp @ ''/'' @ dataset) = Some data \<and>
            2 \<le> length (shape data) \<and>
            amin np (h ''cell_lon'') = Inr (Some x0) \<and> amax np (h ''cell_lon'') = Inr (Some x1) \<and>
            amin np (h ''cell_lat'') = Inr (Some y0) \<and> amax np (h ''cell_lat'') = Inr (Some y1) \<and>
            files st' = (files st)(resolve st (dataset @ ''Raster.tif'') \<mapsto> GTiff r) \<and>
            RasterXSize r = int (shape data ! 1) \<and> RasterYSize r = int (shape data ! 0) \<and>
            RasterCount r = 1 \<and> DataType r = GDT_Float32 \<and> Projection r = Some (EPSG 4326) \<and>
            GeoTransform r = Some (doubles np
              (x0, np_div np (np_sub np x1 x0) (py_float np (shape data ! 1)), py_zero np, y1,
               py_zero np,
               np_neg np (np_div np (np_sub np y1 y0) (py_float np (shape data ! 0)))))) \<or>
          (res \<noteq> Inr () \<and> files st' = files st)" .
qed

text \<open>
  In the small file the group holds arrays named \<^verbatim>\<open>cell_lat\<close> and \<^verbatim>\<open>cell_lon\<close> too, with
  other values; the geotransform is that of the top-level arrays.
\<close>

theorem smap2raster_fixed_properties_witness:
  "smap_input_ok file_path which_group ''soil_temp_layer2'' smap_fs \<and>
   (\<exists>r. smap2raster float32_np file_path which_group ''soil_temp_layer2'' smap_fs =
           (Inr (), smap_fs\<lparr>files := (files smap_fs)(''soil_temp_layer2Raster.tif'' \<mapsto> GTiff r)\<rparr>) \<and>
         RasterXSize r = 3 \<and> RasterYSize r = 2 \<and> RasterCount r = 1 \<and>
         DataType r = GDT_Float32 \<and> Projection r = Some (EPSG 4326) \<and>
         GeoTransform r = Some (-120, 20, 0, 60, 0, -20))"
proof -
  from smap_h5_soil_temp [OF smap_fs_file smap_fs_creatable] obtain r where
    run: "smap2raster float32_np file_path which_group ''soil_temp_layer2'' smap_fs =
           (Inr (), smap_fs\<lparr>files := (files smap_fs)(''soil_temp_layer2Raster.tif'' \<mapsto> GTiff r)\<rparr>)"
    and props: "RasterXSize r = 3" "RasterYSize r = 2" "RasterCount r = 1"
      "DataType r = GDT_Float32" "Projection r = Some (EPSG 4326)"
      "GeoTransform r = Some (-120, 20, 0, 60, 0, -20)"
    by (auto simp: smap_fs_resolve)
  from smap2raster_fixed_properties [OF run]
  have "smap_input_ok file_path which_group ''soil_temp_layer2'' smap_fs" by simp
  with run props show ?thesis by blast
qed

text \<open>
  C9 (as the claim states it) fails for a call that names a dataset the file does not
  hold: \<^verbatim>\<open>np_data.shape[1]\<close> raises an \<^verbatim>\<open>IndexError\<close>, and the call creates no raster.
\<close>

theorem smap2raster_missing_dataset_counterexample:
  "fst (smap2raster float32_np file_path which_group ''snow_mass'' smap_fs) = Inl IndexError \<and>
   files (snd (smap2raster float32_np file_path which_group ''snow_mass'' smap_fs))
     ''snow_massRaster.tif'' = None"
  by (simp add: smap_fs_snow_mass) (simp add: smap_fs_def file_path_def)

subsection \<open>What a call leaves untouched\<close>

text \<open>
  C10 (as the code has it). When the path of the input and the dataset's name followed
  by \<open>Raster.tif\<close> do not name the same file, a call leaves the input file as it was. In
  every case the only file a call can change is the one that the dataset's name
  followed by \<open>Raster.tif\<close> names; the only handle a call opens is a read-only one on
  the input, and after a normal return the open handles are those before the call.
\<close>

theorem smap2raster_frame:
  assumes "smap2raster np inputFile grp dataset st = (res, st')"
  shows "(resolve st inputFile \<noteq> resolve st (dataset @ ''Raster.tif'') \<longrightarrow>
            files st' (resolve st inputFile) = files st (resolve st inputFile)) \<and>
         (\<forall>place. place \<noteq> resolve st (dataset @ ''Raster.tif'') \<longrightarrow>
            files st' place = files st place) \<and>
         (res = Inr () \<longrightarrow> opened st' = opened st) \<and>
         (opened st' = opened st \<or> opened st' = (resolve st inputFile, ReadOnly) # opened st)"
proof -
  from smap2raster_effect [OF assms]
  have other: "files st' place = files st place"
    if "place \<noteq> resolve st (dataset @ ''Raster.tif'')" for place
    using that by auto
  from other smap2raster_opened [OF assms] show ?thesis by blast
qed

theorem smap2raster_frame_witness:
  "resolve smap_fs file_path \<noteq> resolve smap_fs (''sm_surface_wetness'' @ ''Raster.tif'') \<and>
   fst (smap2raster float32_np file_path which_group ''sm_surface_wetness'' smap_fs) = Inr () \<and>
   files (snd (smap2raster float32_np file_path which_group ''sm_surface_wetness'' smap_fs))
       (resolve smap_fs file_path) =
     files smap_fs (resolve smap_fs file_path) \<and>
   opened (snd (smap2raster float32_np file_path which_group ''sm_surface_wetness'' smap_fs)) =
     opened smap_fs"
proof -
  let ?run = "smap2raster float32_np file_path which_group ''sm_surface_wetness'' smap_fs"
  have no: "resolve smap_fs file_path \<noteq> resolve smap_fs (''sm_surface_wetness'' @ ''Raster.tif'')"
    using file_path_no_raster [of "''sm_surface_wetness''"] by (simp add: smap_fs_resolve)
  from smap_h5_wetness [OF smap_fs_file smap_fs_creatable] have ret: "fst ?run = Inr ()"
    by auto
  have "?run = (fst ?run, snd ?run)" by simp
  from smap2raster_frame [OF this] no ret show ?thesis by simp
qed

text \<open>
  C10 (as the claim states it) fails when the input file is itself named as the output
  is: the call returns normally, and the path of the input now holds the raster.
\<close>

theorem smap2raster_overwrites_input_counterexample:
  "fst (smap2raster float32_np ''sm_surface_wetnessRaster.tif'' which_group ''sm_surface_wetness''
     alias_fs) = Inr () \<and>
   files (snd (smap2raster float32_np ''sm_surface_wetnessRaster.tif'' which_group
     ''sm_surface_wetness'' alias_fs)) ''sm_surface_wetnessRaster.tif'' \<noteq>
     files alias_fs ''sm_surface_wetnessRaster.tif''"
proof -
  from smap_h5_wetness [OF alias_fs_file(1) alias_fs_creatable] obtain r where
    "smap2raster float32_np ''sm_surface_wetnessRaster.tif'' which_group ''sm_surface_wetness''
       alias_fs =
     (Inr (), alias_fs\<lparr>files := (files alias_fs)(''sm_surface_wetnessRaster.tif'' \<mapsto> GTiff r)\<rparr>)"
    by (auto simp: alias_fs_resolve)
  then show ?thesis
    using alias_fs_file(1) by (simp add: alias_fs_resolve)
qed

text \<open>
  The same happens when the input is given as \<^verbatim>\<open>./sm_surface_wetnessRaster.tif\<close>: the
  two paths differ and name one file.
\<close>

lemma smap2raster_overwrites_input_other_spelling:
  "''./sm_surface_wetnessRaster.tif'' \<noteq> ''sm_surface_wetness'' @ ''Raster.tif'' \<and>
   fst (smap2raster float32_np ''./sm_surface_wetnessRaster.tif'' which_group
     ''sm_surface_wetness'' alias_fs) = Inr () \<and>
   files (snd (smap2raster float32_np ''./sm_surface_wetnessRaster.tif'' which_group
     ''sm_surface_wetness'' alias_fs)) (resolve alias_fs ''./sm_surface_wetnessRaster.tif'') \<noteq>
     files alias_fs (resolve alias_fs ''./sm_surface_wetnessRaster.tif'')"
proof -
  from smap_h5_wetness [OF alias_fs_file(2) alias_fs_creatable] obtain r where
    "smap2raster float32_np ''./sm_surface_wetnessRaster.tif'' which_group ''sm_surface_wetness''
       alias_fs =
     (Inr (), alias_fs\<lparr>files := (files alias_fs)(''sm_surface_wetnessRaster.tif'' \<mapsto> GTiff r)\<rparr>)"
    by (auto simp: alias_fs_resolve)
  then show ?thesis
    using alias_fs_file(2) by (simp add: alias_fs_resolve)
qed

end
